theory Spec2Isabelle
  imports Complex_Main "HOL-Library.Word"
begin

text \<open>
  The video player of the funnel, \<open>src/components/VideoPlayer.tsx\<close>: the Progress Store
  (\<open>getSavedProgress\<close>, \<open>saveProgress\<close>, \<open>clearProgress\<close>), the extraction of the
  video identity from a URL, the loading of the configuration, and the component with
  its event handlers, timers and teardown.
\<close>

section \<open>JavaScript values used by the video player\<close>

text \<open>
  A JavaScript string is a sequence of UTF-16 code units and \<open>.length\<close> counts code
  units, so a string is a list of 16-bit words. \<open>js\<close> embeds a literal.
  Numbers (seconds, thresholds) are finite and modelled by real numbers, so the rounding
  of a division is not modelled; \<open>Date.now()\<close> is an integer number of milliseconds.
\<close>

type_synonym jsstring = "16 word list"

definition cu :: "char \<Rightarrow> 16 word" where
  "cu c = of_nat (of_char c)"

definition js :: "string \<Rightarrow> jsstring" where
  "js s = map cu s"

datatype exn = SecurityError | QuotaExceededError | SyntaxError | TypeError | NetworkError

text \<open>The values \<open>JSON.parse\<close> can return.\<close>

datatype json =
    JNull
  | JBool bool
  | JNum real
  | JStr jsstring
  | JArr "json list"
  | JObj "(jsstring \<times> json) list"

text \<open>JavaScript truthiness, as used by \<open>x || 0\<close> and \<open>if (x)\<close>.\<close>

fun truthy :: "json \<Rightarrow> bool" where
  "truthy JNull = False"
| "truthy (JBool b) = b"
| "truthy (JNum x) = (x \<noteq> 0)"
| "truthy (JStr s) = (s \<noteq> [])"
| "truthy (JArr xs) = True"
| "truthy (JObj kvs) = True"

text \<open>
  Reading a property \<open>data.name\<close>: a TypeError on \<open>null\<close>, \<open>undefined\<close>
  (here \<open>None\<close>) where the value has no such property.
\<close>

fun get_prop :: "json \<Rightarrow> jsstring \<Rightarrow> exn + json option" where
  "get_prop JNull name = Inl TypeError"
| "get_prop (JObj kvs) name = Inr (map_of kvs name)"
| "get_prop v name = Inr None"

text \<open>
  The text held by a storage entry is one of: the empty string, a non-empty string
  that \<open>JSON.parse\<close> rejects, or the serialisation of a JSON value.
  \<open>JSON.parse (JSON.stringify v)\<close> gives \<open>v\<close> back for the values written here
  (objects of finite numbers); that is a guarantee of the language and is built into
  this representation.
\<close>

datatype stored_text = EmptyText | Malformed | Serialized json

fun truthy_text :: "stored_text \<Rightarrow> bool" where
  "truthy_text EmptyText = False"
| "truthy_text Malformed = True"
| "truthy_text (Serialized v) = True"

fun JSON_parse :: "stored_text \<Rightarrow> exn + json" where
  "JSON_parse (Serialized v) = Inr v"
| "JSON_parse t = Inl SyntaxError"

definition JSON_stringify :: "json \<Rightarrow> stored_text" where
  "JSON_stringify v = Serialized v"

section \<open>localStorage\<close>

text \<open>
  The browser's storage: a key-value map whose operations may throw (storage disabled,
  quota exceeded). The three flags say which operations throw; \<open>writes\<close>
  counts the \<open>setItem\<close> calls that stored something.
\<close>

record storage =
  items :: "jsstring \<rightharpoonup> stored_text"
  getItem_throws :: bool
  setItem_throws :: bool
  removeItem_throws :: bool
  writes :: nat

definition getItem :: "storage \<Rightarrow> jsstring \<Rightarrow> exn + stored_text option" where
  "getItem ls k = (if getItem_throws ls then Inl SecurityError else Inr (items ls k))"

definition setItem :: "storage \<Rightarrow> jsstring \<Rightarrow> stored_text \<Rightarrow> exn + storage" where
  "setItem ls k v =
     (if setItem_throws ls then Inl QuotaExceededError
      else Inr (ls\<lparr>items := (items ls)(k \<mapsto> v), writes := Suc (writes ls)\<rparr>))"

definition removeItem :: "storage \<Rightarrow> jsstring \<Rightarrow> exn + storage" where
  "removeItem ls k =
     (if removeItem_throws ls then Inl SecurityError
      else Inr (ls\<lparr>items := (items ls)(k := None)\<rparr>))"

section \<open>Progress Store\<close>

definition STORAGE_KEY :: jsstring where
  "STORAGE_KEY = js ''video_progress''"

text \<open>The template string \<open>`${STORAGE_KEY}_${videoId}`\<close>.\<close>

definition progress_key :: "jsstring \<Rightarrow> jsstring" where
  "progress_key videoId = STORAGE_KEY @ js ''_'' @ videoId"

text \<open>
  The body of the \<open>try\<close> block of \<open>getSavedProgress\<close>: it throws (\<open>Inl\<close>),
  returns a value (\<open>Some\<close>) or completes without returning (\<open>None\<close>).
\<close>

definition getSavedProgress_try :: "storage \<Rightarrow> jsstring \<Rightarrow> exn + json option" where
  "getSavedProgress_try ls videoId =
     (case getItem ls (progress_key videoId) of
        Inl e \<Rightarrow> Inl e
      | Inr None \<Rightarrow> Inr None
      | Inr (Some saved) \<Rightarrow>
          if truthy_text saved then
            (case JSON_parse saved of
               Inl e \<Rightarrow> Inl e
             | Inr data \<Rightarrow>
                 (case get_prop data (js ''time'') of
                    Inl e \<Rightarrow> Inl e
                  | Inr None \<Rightarrow> Inr (Some (JNum 0))
                  | Inr (Some t) \<Rightarrow> Inr (Some (if truthy t then t else JNum 0))))
          else Inr None)"

text \<open>\<open>catch (e) {}\<close> swallows the exception; both it and a \<open>try\<close> block that
  did not return fall through to \<open>return 0\<close>.\<close>

definition getSavedProgress :: "storage \<Rightarrow> jsstring \<Rightarrow> exn + json" where
  "getSavedProgress ls videoId =
     (case getSavedProgress_try ls videoId of
        Inl e \<Rightarrow> Inr (JNum 0)
      | Inr None \<Rightarrow> Inr (JNum 0)
      | Inr (Some v) \<Rightarrow> Inr v)"

text \<open>\<open>saveProgress videoId time\<close> at wall-clock time \<open>now\<close> (\<open>Date.now()\<close>).\<close>

definition saveProgress :: "storage \<Rightarrow> jsstring \<Rightarrow> real \<Rightarrow> int \<Rightarrow> exn + storage" where
  "saveProgress ls videoId t now =
     (case setItem ls (progress_key videoId)
             (JSON_stringify (JObj [(js ''time'', JNum t), (js ''timestamp'', JNum (real_of_int now))])) of
        Inl e \<Rightarrow> Inr ls
      | Inr ls' \<Rightarrow> Inr ls')"

definition clearProgress :: "storage \<Rightarrow> jsstring \<Rightarrow> exn + storage" where
  "clearProgress ls videoId =
     (case removeItem ls (progress_key videoId) of
        Inl e \<Rightarrow> Inr ls
      | Inr ls' \<Rightarrow> Inr ls')"

section \<open>Extracting the video identity from a URL\<close>

text \<open>
  The regular expressions are applied by a backtracking matcher; each piece below
  consumes a prefix of the input and returns the rest, or fails with \<open>None\<close>.
\<close>

fun literal :: "jsstring \<Rightarrow> jsstring \<Rightarrow> jsstring option" where
  "literal [] s = Some s"
| "literal (p # ps) [] = None"
| "literal (p # ps) (c # cs) = (if p = c then literal ps cs else None)"

text \<open>\<open>.\<close> matches every code unit except the line terminators LF, CR, LS and PS.\<close>

definition line_terminator :: "16 word \<Rightarrow> bool" where
  "line_terminator u = (u = 0x0A \<or> u = 0x0D \<or> u = 0x2028 \<or> u = 0x2029)"

definition is_digit :: "16 word \<Rightarrow> bool" where
  "is_digit u = (cu CHR ''0'' \<le> u \<and> u \<le> cu CHR ''9'')"

definition is_alpha :: "16 word \<Rightarrow> bool" where
  "is_alpha u = ((cu CHR ''a'' \<le> u \<and> u \<le> cu CHR ''z'') \<or> (cu CHR ''A'' \<le> u \<and> u \<le> cu CHR ''Z''))"

text \<open>\<open>\w\<close> is \<open>[A-Za-z0-9_]\<close>.\<close>

definition is_word :: "16 word \<Rightarrow> bool" where
  "is_word u = (is_alpha u \<or> is_digit u \<or> u = cu CHR ''_'')"

fun one :: "(16 word \<Rightarrow> bool) \<Rightarrow> jsstring \<Rightarrow> jsstring option" where
  "one P [] = None"
| "one P (c # cs) = (if P c then Some cs else None)"

text \<open>An optional single character \<open>c?\<close>, greedy. What follows it in the YouTube
  expression always matches, so the greedy choice is never undone.\<close>

fun optional :: "16 word \<Rightarrow> jsstring \<Rightarrow> jsstring" where
  "optional c [] = []"
| "optional c (x # xs) = (if x = c then xs else x # xs)"

text \<open>The five alternatives of the first group of the YouTube expression, tried in
  order: \<open>youtu.be\/\<close>, \<open>v\/\<close>, \<open>\/u\/\w\/\<close>, \<open>embed\/\<close>, \<open>watch\?\<close>.\<close>

definition youtube_alternatives :: "jsstring \<Rightarrow> jsstring option" where
  "youtube_alternatives s =
     (case Option.bind (Option.bind (literal (js ''youtu'') s) (one (\<lambda>u. \<not> line_terminator u)))
             (literal (js ''be/'')) of
        Some r \<Rightarrow> Some r
      | None \<Rightarrow>
     (case literal (js ''v/'') s of
        Some r \<Rightarrow> Some r
      | None \<Rightarrow>
     (case Option.bind (Option.bind (literal (js ''/u/'') s) (one is_word)) (literal (js ''/'')) of
        Some r \<Rightarrow> Some r
      | None \<Rightarrow>
     (case literal (js ''embed/'') s of
        Some r \<Rightarrow> Some r
      | None \<Rightarrow> literal (js ''watch?'') s))))"

text \<open>
  \<open>^.*(...)\<close>: the greedy \<open>.*\<close> takes as many characters as it can, so the group is
  matched at the last position (inside the first line) where an alternative matches.
\<close>

fun youtube_prefix :: "jsstring \<Rightarrow> jsstring option" where
  "youtube_prefix [] = youtube_alternatives []"
| "youtube_prefix (c # cs) =
     (if line_terminator c then youtube_alternatives (c # cs)
      else (case youtube_prefix cs of
              Some r \<Rightarrow> Some r
            | None \<Rightarrow> youtube_alternatives (c # cs)))"

text \<open>
  \<open>url.match(regExp)\<close> for
  \<open>/^.*((youtu.be\/)|(v\/)|(\/u\/\w\/)|(embed\/)|(watch\?))\??v?=?([^#&?]*).*/\<close>:
  \<open>None\<close> for \<open>null\<close>, otherwise the seventh group.
\<close>

definition youtube_match :: "jsstring \<Rightarrow> jsstring option" where
  "youtube_match url =
     (case youtube_prefix url of
        None \<Rightarrow> None
      | Some r \<Rightarrow>
          Some (takeWhile (\<lambda>u. u \<noteq> cu CHR ''#'' \<and> u \<noteq> cu CHR ''&'' \<and> u \<noteq> cu CHR ''?'')
                  (optional (cu CHR ''='') (optional (cu CHR ''v'') (optional (cu CHR ''?'') r)))))"

definition getYouTubeVideoId :: "jsstring \<Rightarrow> jsstring option" where
  "getYouTubeVideoId url =
     (case youtube_match url of
        None \<Rightarrow> None
      | Some m7 \<Rightarrow> if length m7 = 11 then Some m7 else None)"

text \<open>An unanchored expression is tried at each position from the left.\<close>

fun search :: "(jsstring \<Rightarrow> jsstring option) \<Rightarrow> jsstring \<Rightarrow> jsstring option" where
  "search f [] = f []"
| "search f (c # cs) = (case f (c # cs) of Some r \<Rightarrow> Some r | None \<Rightarrow> search f cs)"

text \<open>One or more characters of a class, greedy, captured.\<close>

definition capture :: "(16 word \<Rightarrow> bool) \<Rightarrow> jsstring \<Rightarrow> jsstring option" where
  "capture P s = (if takeWhile P s = [] then None else Some (takeWhile P s))"

text \<open>\<open>/\/d\/([a-zA-Z0-9_-]+)/\<close>\<close>

definition getGoogleDriveFileId :: "jsstring \<Rightarrow> jsstring option" where
  "getGoogleDriveFileId url =
     search (\<lambda>s. Option.bind (literal (js ''/d/'') s)
                    (capture (\<lambda>u. is_word u \<or> u = cu CHR ''-''))) url"

text \<open>\<open>/vimeo\.com\/(?:video\/)?(\d+)/\<close>: when \<open>video\/\<close> is present but no digit
  follows it, the matcher retries without the optional group.\<close>

definition getVimeoVideoId :: "jsstring \<Rightarrow> jsstring option" where
  "getVimeoVideoId url =
     search (\<lambda>s. Option.bind (literal (js ''vimeo.com/'') s)
                    (\<lambda>r. case Option.bind (literal (js ''video/'') r) (capture is_digit) of
                            Some d \<Rightarrow> Some d
                          | None \<Rightarrow> capture is_digit r)) url"

section \<open>Configuration\<close>

record VideoConfig =
  config_id :: int
  video_url :: jsstring
  video_type :: jsstring
  video_path :: "jsstring option"
  button_delay_seconds :: real

definition DEFAULT_VIDEO_URL :: jsstring where
  "DEFAULT_VIDEO_URL = js ''https://vimeo.com/1142286537''"

definition DEFAULT_VIDEO_TYPE :: jsstring where
  "DEFAULT_VIDEO_TYPE = js ''vimeo''"

definition DEFAULT_BUTTON_DELAY :: real where
  "DEFAULT_BUTTON_DELAY = 180"

text \<open>The object literal that \<open>loadVideoConfig\<close> passes to \<open>setVideoConfig\<close> in both
  of its fallback branches.\<close>

definition default_config :: VideoConfig where
  "default_config =
     \<lparr>config_id = 0, video_url = DEFAULT_VIDEO_URL, video_type = DEFAULT_VIDEO_TYPE,
      video_path = None, button_delay_seconds = DEFAULT_BUTTON_DELAY\<rparr>"

text \<open>
  How \<open>GET /api/video/current\<close> ends: \<open>fetch\<close> rejects, \<open>response.json()\<close>
  rejects, the body is \<open>null\<close>, or the body is an object whose \<open>video\<close> is a
  configuration or is \<open>null\<close>/absent.
\<close>

datatype api_reply = Rejected | BadJson | NullBody | Reply "VideoConfig option"

text \<open>The \<open>try\<close> block of \<open>loadVideoConfig\<close>: the configuration it sets, or the
  exception it throws.\<close>

fun loadVideoConfig_try :: "api_reply \<Rightarrow> exn + VideoConfig" where
  "loadVideoConfig_try Rejected = Inl NetworkError"
| "loadVideoConfig_try BadJson = Inl SyntaxError"
| "loadVideoConfig_try NullBody = Inl TypeError"
| "loadVideoConfig_try (Reply (Some video)) = Inr video"
| "loadVideoConfig_try (Reply None) = Inr default_config"

text \<open>The configuration handed to \<open>setVideoConfig\<close>; the \<open>catch\<close> branch logs the
  error and sets the default.\<close>

definition loaded_config :: "api_reply \<Rightarrow> VideoConfig" where
  "loaded_config r = (case loadVideoConfig_try r of Inl e \<Rightarrow> default_config | Inr c \<Rightarrow> c)"

section \<open>The component\<close>

text \<open>
  The values of the state variables \<open>videoConfig\<close> and \<open>buttonEnabled\<close> in one
  render of the component. They are \<open>const\<close> bindings of that render: every function
  the render creates, and every callback such a function creates later, reads these
  values, whatever state updates happen afterwards.
\<close>

record scope =
  seen_videoConfig :: "VideoConfig option"
  seen_buttonEnabled :: bool

text \<open>The \<open><video>\<close> element behind \<open>localVideoRef\<close>.\<close>

record video_element =
  currentTime :: real
  paused :: bool
  ended :: bool
  muted :: bool

text \<open>\<open>play()\<close> and the assignment \<open>currentTime = t\<close>.\<close>

definition play :: "video_element \<Rightarrow> video_element" where
  "play v = v\<lparr>paused := False, ended := False\<rparr>"

definition seek :: "real \<Rightarrow> video_element \<Rightarrow> video_element" where
  "seek t v = v\<lparr>currentTime := t, ended := False\<rparr>"

datatype PlayerState = UNSTARTED | ENDED | PLAYING | PAUSED | BUFFERING | CUED

text \<open>
  The \<open>YT.Player\<close> object behind \<open>playerRef\<close>. Its methods (\<open>getCurrentTime\<close>,
  \<open>getDuration\<close>, \<open>seekTo\<close>, \<open>playVideo\<close>) exist once the player is ready.
  \<open>handlers\<close> is the render in which \<open>createYouTubePlayer\<close> built the event
  handlers; \<open>start\<close> is \<open>playerVars.start\<close>.
\<close>

record yt_player =
  api_attached :: bool
  yt_position :: real
  yt_state :: PlayerState
  yt_muted :: bool
  handlers :: scope
  start :: "int option"

definition playVideo :: "yt_player \<Rightarrow> yt_player" where
  "playVideo p = p\<lparr>yt_state := PLAYING\<rparr>"

definition seekTo :: "real \<Rightarrow> yt_player \<Rightarrow> yt_player" where
  "seekTo t p = p\<lparr>yt_position := t\<rparr>"

text \<open>
  The number a saved value stands for where the code uses it as a number
  (\<open>savedTime > 0\<close>, \<open>Math.floor(savedTime)\<close>, \<open>video.currentTime = savedTime\<close>):
  the abstract operation \<open>ToNumber\<close> of the language. A string is read as a
  \<open>StringNumericLiteral\<close>: white space trimmed, empty for 0, a signed decimal literal
  with optional fraction and exponent, \<open>Infinity\<close>, or an unsigned literal with prefix
  \<open>0x\<close>, \<open>0o\<close> or \<open>0b\<close>; anything else is \<open>NaN\<close>. An array is read through its
  string: the empty array as 0, an array of one element as that element's string
  (empty for \<open>null\<close>; a number prints and reads back as itself), a longer one contains
  a comma and is \<open>NaN\<close>. An object prints as \<open>[object Object]\<close> and is \<open>NaN\<close>.
\<close>

datatype number = Finite real | PosInfinity | NegInfinity | NaN

definition is_space :: "16 word \<Rightarrow> bool" where
  "is_space u =
     (u = 0x09 \<or> u = 0x0A \<or> u = 0x0B \<or> u = 0x0C \<or> u = 0x0D \<or> u = 0x20 \<or> u = 0xA0 \<or>
      u = 0x1680 \<or> (0x2000 \<le> u \<and> u \<le> 0x200A) \<or> u = 0x2028 \<or> u = 0x2029 \<or>
      u = 0x202F \<or> u = 0x205F \<or> u = 0x3000 \<or> u = 0xFEFF)"

definition trim :: "jsstring \<Rightarrow> jsstring" where
  "trim s = rev (dropWhile is_space (rev (dropWhile is_space s)))"

definition digit_value :: "16 word \<Rightarrow> nat" where
  "digit_value u =
     (if is_digit u then unat u - 48
      else if cu CHR ''a'' \<le> u \<and> u \<le> cu CHR ''f'' then unat u - 87
      else if cu CHR ''A'' \<le> u \<and> u \<le> cu CHR ''F'' then unat u - 55
      else 16)"

definition digits_value :: "nat \<Rightarrow> jsstring \<Rightarrow> nat" where
  "digits_value base ds = foldl (\<lambda>n u. n * base + digit_value u) 0 ds"

definition radix_literal :: "nat \<Rightarrow> jsstring \<Rightarrow> number" where
  "radix_literal base ds =
     (if ds \<noteq> [] \<and> list_all (\<lambda>u. digit_value u < base) ds
      then Finite (real (digits_value base ds)) else NaN)"

fun non_decimal :: "jsstring \<Rightarrow> number option" where
  "non_decimal (z # x # ds) =
     (if z \<noteq> cu CHR ''0'' then None
      else if x = cu CHR ''x'' \<or> x = cu CHR ''X'' then Some (radix_literal 16 ds)
      else if x = cu CHR ''o'' \<or> x = cu CHR ''O'' then Some (radix_literal 8 ds)
      else if x = cu CHR ''b'' \<or> x = cu CHR ''B'' then Some (radix_literal 2 ds)
      else None)"
| "non_decimal s = None"

definition signed_integer :: "jsstring \<Rightarrow> int option" where
  "signed_integer s =
     (case s of
        [] \<Rightarrow> None
      | c # r \<Rightarrow>
          (let ds = (if c = cu CHR ''+'' \<or> c = cu CHR ''-'' then r else s)
           in if ds \<noteq> [] \<and> list_all is_digit ds
              then Some (if c = cu CHR ''-'' then - int (digits_value 10 ds)
                         else int (digits_value 10 ds))
              else None))"

fun exponent_part :: "jsstring \<Rightarrow> int option" where
  "exponent_part [] = Some 0"
| "exponent_part (c # r) =
     (if c = cu CHR ''e'' \<or> c = cu CHR ''E'' then signed_integer r else None)"

definition scale :: "real \<Rightarrow> int \<Rightarrow> real" where
  "scale x e = (if 0 \<le> e then x * 10 ^ nat e else x / 10 ^ nat (- e))"

definition unsigned_decimal :: "jsstring \<Rightarrow> number" where
  "unsigned_decimal t =
     (if t = js ''Infinity'' then PosInfinity
      else
        (let ip = takeWhile is_digit t;
             r1 = dropWhile is_digit t;
             fp = (case one (\<lambda>u. u = cu CHR ''.'') r1 of
                     None \<Rightarrow> [] | Some r \<Rightarrow> takeWhile is_digit r);
             r2 = (case one (\<lambda>u. u = cu CHR ''.'') r1 of
                     None \<Rightarrow> r1 | Some r \<Rightarrow> dropWhile is_digit r)
         in if ip = [] \<and> fp = [] then NaN
            else (case exponent_part r2 of
                    None \<Rightarrow> NaN
                  | Some e \<Rightarrow>
                      Finite (scale (real (digits_value 10 ip) +
                                     real (digits_value 10 fp) / 10 ^ length fp) e))))"

fun negate :: "number \<Rightarrow> number" where
  "negate (Finite x) = Finite (- x)"
| "negate PosInfinity = NegInfinity"
| "negate NegInfinity = PosInfinity"
| "negate NaN = NaN"

definition str_decimal :: "jsstring \<Rightarrow> number" where
  "str_decimal t =
     (case one (\<lambda>u. u = cu CHR ''+'') t of
        Some r \<Rightarrow> unsigned_decimal r
      | None \<Rightarrow>
          (case one (\<lambda>u. u = cu CHR ''-'') t of
             Some r \<Rightarrow> negate (unsigned_decimal r)
           | None \<Rightarrow> unsigned_decimal t))"

definition StringToNumber :: "jsstring \<Rightarrow> number" where
  "StringToNumber s =
     (let t = trim s
      in if t = [] then Finite 0
         else (case non_decimal t of Some n \<Rightarrow> n | None \<Rightarrow> str_decimal t))"

fun ToNumber :: "json \<Rightarrow> number" where
  "ToNumber JNull = Finite 0"
| "ToNumber (JBool b) = Finite (if b then 1 else 0)"
| "ToNumber (JNum x) = Finite x"
| "ToNumber (JStr s) = StringToNumber s"
| "ToNumber (JObj kvs) = NaN"
| "ToNumber (JArr []) = Finite 0"
| "ToNumber (JArr [JNull]) = Finite 0"
| "ToNumber (JArr [JBool b]) = NaN"
| "ToNumber (JArr [JNum x]) = Finite x"
| "ToNumber (JArr [JStr s]) = StringToNumber s"
| "ToNumber (JArr [JObj kvs]) = NaN"
| "ToNumber (JArr [JArr xs]) = ToNumber (JArr xs)"
| "ToNumber (JArr (x # y # zs)) = NaN"

text \<open>The messages posted to the Vimeo iframe: \<open>play\<close>, \<open>setVolume\<close>,
  \<open>setMuted\<close>.\<close>

datatype vimeo_message = PostPlay | PostSetVolume real | PostSetMuted bool

text \<open>
  What a timer runs. Each polling callback carries the render it was created in and,
  for the two embedded players, the \<open>startTime\<close> it captured.
\<close>

datatype callback =
    HideHud
  | VimeoPoll scope int
  | DrivePoll scope int
  | LocalPoll scope
  | YouTubePoll scope
  | SaveLocal
  | SaveYouTube

text \<open>
  The component: React state, refs, and the part of the browser it talks to.
  \<open>timers\<close> are the active timeouts and intervals by handle; \<open>clock\<close> is
  \<open>Date.now()\<close>; \<open>embed_position\<close> is the playhead of the embedded Vimeo or Google
  Drive player, which the component has no means to read; \<open>unlocks\<close> and
  \<open>playStarts\<close> count the calls of the props \<open>onButtonEnable\<close> and
  \<open>onPlayStart\<close> (\<open>onPlayStart\<close> says whether that optional prop is given);
  \<open>uncaught\<close> records an exception that escapes a handler. \<open>fetch_pending\<close> is the
  configuration request in flight, \<open>playPromise\<close> the pending promise of
  \<open>video.play()\<close> with the render that awaits it, \<open>window_YT\<close> whether the YouTube
  script is loaded and \<open>onYouTubeIframeAPIReady\<close> the callback waiting for it,
  \<open>posted\<close> the messages sent to the Vimeo iframe. \<open>sessionStorage\<close> is the
  browser's session storage, which may throw like \<open>localStorage\<close>.
\<close>

record component =
  videoConfig :: "VideoConfig option"
  buttonEnabled :: bool
  showHudOverlay :: bool
  showPlayOverlay :: bool
  playerRef :: "yt_player option"
  localVideoRef :: "video_element option"
  progressIntervalRef :: "nat option"
  saveProgressIntervalRef :: "nat option"
  trackingStartedRef :: bool
  hudOverlayTimeoutRef :: "nat option"
  currentVideoIdRef :: jsstring
  videoConfigRef :: "VideoConfig option"
  onPlayStart :: bool
  mounted :: bool
  fetch_pending :: bool
  beforeunload_listener :: bool
  localStorage :: storage
  sessionStorage :: storage
  timers :: "(nat \<times> callback) list"
  next_handle :: nat
  clock :: int
  embed_position :: real
  posted :: "vimeo_message list"
  window_YT :: bool
  onYouTubeIframeAPIReady :: "(jsstring \<times> scope) option"
  playPromise :: "scope option"
  unlocks :: nat
  playStarts :: nat
  uncaught :: "exn option"

definition scope_of :: "component \<Rightarrow> scope" where
  "scope_of s = \<lparr>seen_videoConfig = videoConfig s, seen_buttonEnabled = buttonEnabled s\<rparr>"

subsection \<open>Timers\<close>

text \<open>\<open>setTimeout\<close> and \<open>setInterval\<close> return the next handle, a positive integer.\<close>

definition add_timer :: "callback \<Rightarrow> component \<Rightarrow> component" where
  "add_timer cb s =
     s\<lparr>timers := timers s @ [(next_handle s, cb)], next_handle := Suc (next_handle s)\<rparr>"

definition clearTimer :: "nat \<Rightarrow> component \<Rightarrow> component" where
  "clearTimer h s = s\<lparr>timers := filter (\<lambda>(h', cb). h' \<noteq> h) (timers s)\<rparr>"

text \<open>\<open>if (ref.current) { clearInterval(ref.current); }\<close>: a handle is truthy when it
  is not zero.\<close>

definition clear_if_set :: "nat option \<Rightarrow> component \<Rightarrow> component" where
  "clear_if_set r s =
     (case r of None \<Rightarrow> s | Some h \<Rightarrow> if h \<noteq> 0 then clearTimer h s else s)"

text \<open>\<open>hudOverlayTimeoutRef.current = setTimeout(() => setShowHudOverlay(false), 5000)\<close>\<close>

definition arm_hud_timeout :: "component \<Rightarrow> component" where
  "arm_hud_timeout s = (add_timer HideHud s)\<lparr>hudOverlayTimeoutRef := Some (next_handle s)\<rparr>"

text \<open>The common tail of the four \<open>track...Progress\<close> functions: clear the interval
  in \<open>progressIntervalRef\<close> if there is one, then store a new one there.\<close>

definition set_progress_interval :: "callback \<Rightarrow> component \<Rightarrow> component" where
  "set_progress_interval cb s =
     (let s1 = clear_if_set (progressIntervalRef s) s
      in (add_timer cb s1)\<lparr>progressIntervalRef := Some (next_handle s1)\<rparr>)"

definition set_save_interval :: "callback \<Rightarrow> component \<Rightarrow> component" where
  "set_save_interval cb s =
     (let s1 = clear_if_set (saveProgressIntervalRef s) s
      in (add_timer cb s1)\<lparr>saveProgressIntervalRef := Some (next_handle s1)\<rparr>)"

subsection \<open>Progress Store calls from the component\<close>

text \<open>A Progress Store call made by a handler. The functions catch every exception
  themselves, so the \<open>Inl\<close> branch is never taken.\<close>

definition stored :: "exn + storage \<Rightarrow> component \<Rightarrow> component" where
  "stored r s = (case r of Inr ls \<Rightarrow> s\<lparr>localStorage := ls\<rparr> | Inl e \<Rightarrow> s\<lparr>uncaught := Some e\<rparr>)"

definition do_saveProgress :: "jsstring \<Rightarrow> real \<Rightarrow> component \<Rightarrow> component" where
  "do_saveProgress videoId t s = stored (saveProgress (localStorage s) videoId t (clock s)) s"

definition do_clearProgress :: "jsstring \<Rightarrow> component \<Rightarrow> component" where
  "do_clearProgress videoId s = stored (clearProgress (localStorage s) videoId) s"

subsection \<open>Unlock polling\<close>

text \<open>\<open>setButtonEnabled(true); onButtonEnable();\<close>\<close>

definition enable_button :: "component \<Rightarrow> component" where
  "enable_button s = s\<lparr>buttonEnabled := True, unlocks := Suc (unlocks s)\<rparr>"

text \<open>\<open>(Date.now() - startTime) / 1000\<close>\<close>

definition elapsedSeconds :: "component \<Rightarrow> int \<Rightarrow> real" where
  "elapsedSeconds s startTime = real_of_int (clock s - startTime) / 1000"

text \<open>
  The body of each timer callback. In the polling callbacks \<open>videoConfig\<close> and
  \<open>buttonEnabled\<close> are the bindings of the render that created the callback (\<open>sc\<close>);
  the refs are read when the callback runs. \<open>setButtonEnabled(true)\<close> sets the state
  that the next render will see, the field \<open>buttonEnabled\<close>; it does not change
  \<open>sc\<close>, and no later render replaces the callback of a running interval.
\<close>

fun run_callback :: "callback \<Rightarrow> component \<Rightarrow> component" where
  "run_callback HideHud s = s\<lparr>showHudOverlay := False\<rparr>"
| "run_callback (VimeoPoll sc startTime) s =
     (case seen_videoConfig sc of
        None \<Rightarrow> s
      | Some c \<Rightarrow>
          if elapsedSeconds s startTime \<ge> button_delay_seconds c \<and> \<not> seen_buttonEnabled sc
          then enable_button s else s)"
| "run_callback (DrivePoll sc startTime) s =
     (case seen_videoConfig sc of
        None \<Rightarrow> s
      | Some c \<Rightarrow>
          if elapsedSeconds s startTime \<ge> button_delay_seconds c \<and> \<not> seen_buttonEnabled sc
          then enable_button s else s)"
| "run_callback (LocalPoll sc) s =
     (case localVideoRef s of
        None \<Rightarrow> s
      | Some v \<Rightarrow>
          (case seen_videoConfig sc of
             None \<Rightarrow> s
           | Some c \<Rightarrow>
               if currentTime v \<ge> button_delay_seconds c \<and> \<not> seen_buttonEnabled sc
               then enable_button s else s))"
| "run_callback (YouTubePoll sc) s =
     (case playerRef s of
        None \<Rightarrow> s
      | Some p \<Rightarrow>
          if api_attached p then
            (case seen_videoConfig sc of
               None \<Rightarrow> s
             | Some c \<Rightarrow>
                 if yt_position p \<ge> button_delay_seconds c \<and> \<not> seen_buttonEnabled sc
                 then enable_button s else s)
          else s)"
| "run_callback SaveLocal s =
     (case localVideoRef s of
        None \<Rightarrow> s
      | Some v \<Rightarrow>
          if currentVideoIdRef s \<noteq> [] \<and> currentTime v > 0
          then do_saveProgress (currentVideoIdRef s) (currentTime v) s else s)"
| "run_callback SaveYouTube s =
     (case playerRef s of
        None \<Rightarrow> s
      | Some p \<Rightarrow>
          if api_attached p \<and> currentVideoIdRef s \<noteq> [] \<and> yt_position p > 0
          then do_saveProgress (currentVideoIdRef s) (yt_position p) s else s)"

text \<open>The four tracking functions: a one-shot latch, then the polling interval.\<close>

definition trackVimeoProgress :: "scope \<Rightarrow> component \<Rightarrow> component" where
  "trackVimeoProgress sc s =
     (if trackingStartedRef s then s
      else set_progress_interval (VimeoPoll sc (clock s)) (s\<lparr>trackingStartedRef := True\<rparr>))"

definition trackGoogleDriveProgress :: "scope \<Rightarrow> component \<Rightarrow> component" where
  "trackGoogleDriveProgress sc s =
     (if trackingStartedRef s then s
      else set_progress_interval (DrivePoll sc (clock s)) (s\<lparr>trackingStartedRef := True\<rparr>))"

definition trackLocalVideoProgress :: "scope \<Rightarrow> component \<Rightarrow> component" where
  "trackLocalVideoProgress sc s =
     (if trackingStartedRef s then s
      else set_progress_interval (LocalPoll sc) (s\<lparr>trackingStartedRef := True\<rparr>))"

definition trackVideoProgress :: "scope \<Rightarrow> component \<Rightarrow> component" where
  "trackVideoProgress sc s =
     (if trackingStartedRef s then s
      else set_progress_interval (YouTubePoll sc) (s\<lparr>trackingStartedRef := True\<rparr>))"

definition startSavingLocalProgress :: "component \<Rightarrow> component" where
  "startSavingLocalProgress s = set_save_interval SaveLocal s"

definition startSavingProgress :: "component \<Rightarrow> component" where
  "startSavingProgress s = set_save_interval SaveYouTube s"

subsection \<open>Starting playback\<close>

text \<open>
  \<open>sessionStorage.setItem('video_sound_authorized', 'true')\<close>. No \<open>try\<close> block
  surrounds this call in the handlers: when it throws, the rest of the handler does not
  run. The result is the new state, or the exception.
\<close>

definition authorize_sound :: "component \<Rightarrow> exn + component" where
  "authorize_sound s =
     (case setItem (sessionStorage s) (js ''video_sound_authorized'') (Serialized (JBool True)) of
        Inl e \<Rightarrow> Inl e
      | Inr ss \<Rightarrow> Inr (s\<lparr>sessionStorage := ss\<rparr>))"

text \<open>In \<open>setupLocalVideo\<close> the assignment \<open>video.currentTime = savedTime\<close> throws a
  TypeError for a value that is not finite.\<close>

definition setupLocalVideo :: "scope \<Rightarrow> component \<Rightarrow> component" where
  "setupLocalVideo sc s =
     (case localVideoRef s of
        None \<Rightarrow> s
      | Some video \<Rightarrow>
          (case seen_videoConfig sc of
             None \<Rightarrow> s
           | Some c \<Rightarrow>
               (case getSavedProgress (localStorage s) (currentVideoIdRef s) of
                  Inl e \<Rightarrow> s\<lparr>uncaught := Some e\<rparr>
                | Inr savedTime \<Rightarrow>
                    (case ToNumber savedTime of
                       PosInfinity \<Rightarrow> s\<lparr>uncaught := Some TypeError\<rparr>
                     | n \<Rightarrow>
                         (let v1 = (case n of
                                      Finite t \<Rightarrow> if t > 0 then seek t video else video
                                    | _ \<Rightarrow> video)
                          in s\<lparr>localVideoRef := Some (play (v1\<lparr>muted := False\<rparr>)),
                               playPromise := Some sc\<rparr>)))))"

text \<open>The \<open>then\<close> callback of \<open>video.play()\<close> in \<open>setupLocalVideo\<close>. An exception
  in it rejects the promise, and the \<open>catch\<close> callback that follows logs it.\<close>

definition play_resolved :: "scope \<Rightarrow> component \<Rightarrow> component" where
  "play_resolved sc s =
     (case authorize_sound s of
        Inl e \<Rightarrow> s
      | Inr s1 \<Rightarrow>
          startSavingLocalProgress (trackLocalVideoProgress sc (arm_hud_timeout s1)))"

definition setupGoogleDriveVideo :: "scope \<Rightarrow> component \<Rightarrow> component" where
  "setupGoogleDriveVideo sc s =
     (case seen_videoConfig sc of
        None \<Rightarrow> s
      | Some c \<Rightarrow> trackGoogleDriveProgress sc (arm_hud_timeout s))"

text \<open>The \<open>vimeo-player\<close> iframe is in the document whenever the rendered
  configuration has type \<open>vimeo\<close>.\<close>

definition vimeo_iframe :: "component \<Rightarrow> bool" where
  "vimeo_iframe s = (map_option video_type (videoConfig s) = Some (js ''vimeo''))"

definition startVimeoManually :: "scope \<Rightarrow> component \<Rightarrow> component" where
  "startVimeoManually sc s =
     (if vimeo_iframe s then
        (case authorize_sound
                (s\<lparr>posted := posted s @ [PostPlay, PostSetVolume 1, PostSetMuted False]\<rparr>) of
           Inl e \<Rightarrow>
             s\<lparr>posted := posted s @ [PostPlay, PostSetVolume 1, PostSetMuted False],
               uncaught := Some e\<rparr>
         | Inr s1 \<Rightarrow> trackVimeoProgress sc (arm_hud_timeout s1))
      else s)"

definition createYouTubePlayer :: "scope \<Rightarrow> jsstring \<Rightarrow> component \<Rightarrow> component" where
  "createYouTubePlayer sc videoId s =
     (case getSavedProgress (localStorage s) videoId of
        Inl e \<Rightarrow> s\<lparr>uncaught := Some e\<rparr>
      | Inr savedTime \<Rightarrow>
          s\<lparr>playerRef := Some \<lparr>api_attached = False, yt_position = 0, yt_state = UNSTARTED,
                               yt_muted = False, handlers = sc,
                               start = (case ToNumber savedTime of
                                          Finite t \<Rightarrow> Some \<lfloor>t\<rfloor>
                                        | _ \<Rightarrow> None)\<rparr>\<rparr>)"

definition loadYouTubePlayer :: "scope \<Rightarrow> jsstring \<Rightarrow> component \<Rightarrow> component" where
  "loadYouTubePlayer sc videoId s =
     (if \<not> window_YT s then s\<lparr>onYouTubeIframeAPIReady := Some (videoId, sc)\<rparr>
      else createYouTubePlayer sc videoId s)"

definition handleManualPlay :: "component \<Rightarrow> component" where
  "handleManualPlay s =
     (let sc = scope_of s;
          s1 = s\<lparr>showPlayOverlay := False\<rparr>;
          s2 = s1\<lparr>playStarts := (if onPlayStart s1 then Suc (playStarts s1) else playStarts s1)\<rparr>;
          ty = map_option video_type (seen_videoConfig sc)
      in if ty = Some (js ''local'') then setupLocalVideo sc s2
         else if ty = Some (js ''google_drive'') then setupGoogleDriveVideo sc s2
         else if ty = Some (js ''vimeo'') then startVimeoManually sc s2
         else (case getYouTubeVideoId
                      (case seen_videoConfig sc of None \<Rightarrow> [] | Some c \<Rightarrow> video_url c) of
                 None \<Rightarrow> s2
               | Some videoId \<Rightarrow> loadYouTubePlayer sc videoId s2))"

subsection \<open>Events of the local video element\<close>

definition handleLocalVideoPlay :: "component \<Rightarrow> component" where
  "handleLocalVideoPlay s =
     (case authorize_sound s of
        Inl e \<Rightarrow> s\<lparr>uncaught := Some e\<rparr>
      | Inr s1 \<Rightarrow>
          startSavingLocalProgress
            (trackLocalVideoProgress (scope_of s) (arm_hud_timeout s1)))"

definition handleLocalVideoEnded :: "component \<Rightarrow> component" where
  "handleLocalVideoEnded s =
     (let s1 = do_clearProgress (currentVideoIdRef s) s
      in case localVideoRef s1 of
           None \<Rightarrow> s1
         | Some v \<Rightarrow> s1\<lparr>localVideoRef := Some (play (seek 0 v))\<rparr>)"

definition handleLocalVideoPause :: "component \<Rightarrow> component" where
  "handleLocalVideoPause s =
     (let s1 = (case localVideoRef s of
                  None \<Rightarrow> s
                | Some v \<Rightarrow>
                    if currentVideoIdRef s \<noteq> []
                    then do_saveProgress (currentVideoIdRef s) (currentTime v) s else s)
      in case localVideoRef s1 of
           None \<Rightarrow> s1
         | Some v \<Rightarrow> s1\<lparr>localVideoRef := Some (play v)\<rparr>)"

subsection \<open>Events of the YouTube player\<close>

text \<open>\<open>onReady\<close>: \<open>player.playVideo(); player.unMute(); player.setVolume(100);\<close>\<close>

definition onReady :: "component \<Rightarrow> component" where
  "onReady s =
     (case playerRef s of
        None \<Rightarrow> s
      | Some p \<Rightarrow> s\<lparr>playerRef := Some ((playVideo (p\<lparr>api_attached := True\<rparr>))\<lparr>yt_muted := False\<rparr>)\<rparr>)"

text \<open>\<open>onStateChange\<close>, with \<open>sc\<close> the render in which the handler was built and
  \<open>data\<close> the reported state (\<open>event.data\<close>); its three \<open>if\<close> statements in order.
  The first begins with the unguarded write to \<open>sessionStorage\<close>.\<close>

definition onStateChange :: "scope \<Rightarrow> PlayerState \<Rightarrow> component \<Rightarrow> component" where
  "onStateChange sc data s =
     (case (if data = PLAYING then authorize_sound s else Inr s) of
        Inl e \<Rightarrow> s\<lparr>uncaught := Some e\<rparr>
      | Inr a \<Rightarrow>
     (let s1 = (if data = PLAYING
                then startSavingProgress (trackVideoProgress sc (arm_hud_timeout a))
                else a);
          s2 = (if data = ENDED
                then (let s' = do_clearProgress (currentVideoIdRef s1) s1
                      in case playerRef s' of
                           None \<Rightarrow> s'
                         | Some p \<Rightarrow>
                             if api_attached p
                             then s'\<lparr>playerRef := Some (playVideo (seekTo 0 p))\<rparr> else s')
                else s1);
          s3 = (if data = PAUSED
                then (let s' = (case playerRef s2 of
                                  None \<Rightarrow> s2
                                | Some p \<Rightarrow>
                                    if api_attached p \<and> currentVideoIdRef s2 \<noteq> []
                                    then do_saveProgress (currentVideoIdRef s2) (yt_position p) s2
                                    else s2)
                      in case playerRef s' of
                           None \<Rightarrow> s'
                         | Some p \<Rightarrow>
                             if api_attached p
                             then s'\<lparr>playerRef := Some (playVideo p)\<rparr> else s')
                else s2)
      in s3))"

subsection \<open>Effects\<close>

text \<open>The effect that runs when \<open>videoConfig\<close> changes: it derives the playback
  identity. \<open>if (fileId)\<close> holds for a string that is neither \<open>null\<close> nor empty.\<close>

definition identity_effect :: "VideoConfig \<Rightarrow> component \<Rightarrow> component" where
  "identity_effect c s =
     (let s1 = s\<lparr>videoConfigRef := Some c\<rparr>
      in if video_type c = js ''local'' then
           s1\<lparr>currentVideoIdRef :=
                 (case video_path c of
                    None \<Rightarrow> video_url c
                  | Some path \<Rightarrow> if path \<noteq> [] then path else video_url c)\<rparr>
         else
           (case (if video_type c = js ''google_drive'' then getGoogleDriveFileId (video_url c)
                  else if video_type c = js ''vimeo'' then getVimeoVideoId (video_url c)
                  else getYouTubeVideoId (video_url c)) of
              None \<Rightarrow> s1
            | Some videoId \<Rightarrow> if videoId \<noteq> [] then s1\<lparr>currentVideoIdRef := videoId\<rparr> else s1))"

text \<open>\<open>loadVideoConfig\<close>, once the request has settled with reply \<open>r\<close>, followed by
  the effect above.\<close>

definition loadVideoConfig :: "api_reply \<Rightarrow> component \<Rightarrow> component" where
  "loadVideoConfig r s =
     identity_effect (loaded_config r)
       (s\<lparr>videoConfig := Some (loaded_config r), fetch_pending := False\<rparr>)"

definition handleBeforeUnload :: "component \<Rightarrow> component" where
  "handleBeforeUnload s =
     (case (if map_option video_type (videoConfig s) = Some (js ''local'') \<and> currentVideoIdRef s \<noteq> []
            then localVideoRef s else None) of
        Some v \<Rightarrow>
          if currentTime v > 0 then do_saveProgress (currentVideoIdRef s) (currentTime v) s else s
      | None \<Rightarrow>
          (case playerRef s of
             None \<Rightarrow> s
           | Some p \<Rightarrow>
               if api_attached p \<and> currentVideoIdRef s \<noteq> [] \<and> yt_position p > 0
               then do_saveProgress (currentVideoIdRef s) (yt_position p) s else s))"

text \<open>
  Teardown: the cleanup functions of the effects, in the order the effects are
  declared. The first clears the HUD timeout and the saving interval, the third
  removes the \<open>beforeunload\<close> listener, the last clears the polling interval and the
  saving interval. The \<open><video>\<close> element leaves the document.
\<close>

definition unmount :: "component \<Rightarrow> component" where
  "unmount s =
     (let s1 = clear_if_set (hudOverlayTimeoutRef s) s;
          s2 = clear_if_set (saveProgressIntervalRef s1) s1;
          s3 = s2\<lparr>beforeunload_listener := False\<rparr>;
          s4 = clear_if_set (progressIntervalRef s3) s3;
          s5 = clear_if_set (saveProgressIntervalRef s4) s4
      in s5\<lparr>mounted := False, localVideoRef := None\<rparr>)"

text \<open>
  The first render and its effects: no configuration yet, the play overlay and the HUD
  overlay shown, the configuration request in flight, the \<open>beforeunload\<close> listener
  registered. The arguments are what the page and the browser provide: whether the
  prop \<open>onPlayStart\<close> is given, the storage, the clock and whether the YouTube
  script is already loaded. The session storage starts empty and accepting writes; the
  event \<open>SessionStorageThrows\<close> below changes that, from the first moment on if need be.
\<close>

definition mount :: "bool \<Rightarrow> storage \<Rightarrow> int \<Rightarrow> bool \<Rightarrow> component" where
  "mount given ls now yt =
     \<lparr>videoConfig = None, buttonEnabled = False, showHudOverlay = True, showPlayOverlay = True,
      playerRef = None, localVideoRef = None, progressIntervalRef = None,
      saveProgressIntervalRef = None, trackingStartedRef = False, hudOverlayTimeoutRef = None,
      currentVideoIdRef = [], videoConfigRef = None, onPlayStart = given, mounted = True,
      fetch_pending = True, beforeunload_listener = True, localStorage = ls,
      sessionStorage = \<lparr>items = Map.empty, getItem_throws = False, setItem_throws = False,
                          removeItem_throws = False, writes = 0\<rparr>,
      timers = [], next_handle = 1, clock = now,
      embed_position = 0, posted = [], window_YT = yt, onYouTubeIframeAPIReady = None,
      playPromise = None, unlocks = 0, playStarts = 0, uncaught = None\<rparr>"

text \<open>
  After a handler has run React renders again: the \<open><video>\<close> element is in the
  document exactly when the configuration has type \<open>local\<close>, a non-empty
  \<open>video_path\<close>, and the play overlay is hidden.
\<close>

definition video_rendered :: "component \<Rightarrow> bool" where
  "video_rendered s =
     (case videoConfig s of
        None \<Rightarrow> False
      | Some c \<Rightarrow>
          video_type c = js ''local'' \<and>
          (case video_path c of None \<Rightarrow> False | Some path \<Rightarrow> path \<noteq> []) \<and>
          \<not> showPlayOverlay s)"

definition commit :: "component \<Rightarrow> component" where
  "commit s =
     (if video_rendered s then
        (case localVideoRef s of
           None \<Rightarrow> s\<lparr>localVideoRef :=
                       Some \<lparr>currentTime = 0, paused = True, ended = False, muted = False\<rparr>\<rparr>
         | Some v \<Rightarrow> s)
      else s\<lparr>localVideoRef := None\<rparr>)"

subsection \<open>Runs of the component\<close>

text \<open>Time passing: the clock advances, or the timer with a given handle fires. A
  timeout is removed when it fires; an interval stays.\<close>

datatype time_event = Elapse nat | TimerFires nat

fun time_step :: "time_event \<Rightarrow> component \<Rightarrow> component" where
  "time_step (Elapse ms) s = s\<lparr>clock := clock s + int ms\<rparr>"
| "time_step (TimerFires h) s =
     (case map_of (timers s) h of
        None \<Rightarrow> s
      | Some cb \<Rightarrow> run_callback cb (if cb = HideHud then clearTimer h s else s))"


text \<open>
  Everything that can happen to a mounted component. The media events first put the
  element or player in the state they report, then run the handler.
  \<open>SessionStorageThrows\<close> is the browser's session storage starting or ceasing to
  throw on writes (it is disabled, or its quota is filled or freed).
\<close>

datatype event =
    Time time_event
  | FetchSettled api_reply
  | ClickPlay
  | PlayResolved
  | PlayRejected
  | VideoPlay
  | VideoEnded
  | VideoPause
  | VideoTime real
  | YTScriptLoaded
  | YTReady
  | YTStateChange PlayerState
  | YTTime real
  | EmbedTime real
  | SessionStorageThrows bool
  | BeforeUnload
  | Unmount

fun handle :: "event \<Rightarrow> component \<Rightarrow> component" where
  "handle (Time e) s = time_step e s"
| "handle (FetchSettled r) s = (if fetch_pending s then loadVideoConfig r s else s)"
| "handle ClickPlay s =
     (if showPlayOverlay s \<and> videoConfig s \<noteq> None then handleManualPlay s else s)"
| "handle PlayResolved s =
     (case playPromise s of
        None \<Rightarrow> s
      | Some sc \<Rightarrow> play_resolved sc (s\<lparr>playPromise := None\<rparr>))"
| "handle PlayRejected s =
     (case playPromise s of
        None \<Rightarrow> s
      | Some sc \<Rightarrow>
          s\<lparr>playPromise := None,
            localVideoRef := map_option (\<lambda>v. v\<lparr>paused := True\<rparr>) (localVideoRef s)\<rparr>)"
| "handle VideoPlay s =
     (case localVideoRef s of
        None \<Rightarrow> s
      | Some v \<Rightarrow> handleLocalVideoPlay (s\<lparr>localVideoRef := Some (v\<lparr>paused := False\<rparr>)\<rparr>))"
| "handle VideoEnded s =
     (case localVideoRef s of
        None \<Rightarrow> s
      | Some v \<Rightarrow> handleLocalVideoEnded (s\<lparr>localVideoRef := Some (v\<lparr>ended := True, paused := True\<rparr>)\<rparr>))"
| "handle VideoPause s =
     (case localVideoRef s of
        None \<Rightarrow> s
      | Some v \<Rightarrow> handleLocalVideoPause (s\<lparr>localVideoRef := Some (v\<lparr>paused := True\<rparr>)\<rparr>))"
| "handle (VideoTime t) s =
     s\<lparr>localVideoRef := map_option (\<lambda>v. v\<lparr>currentTime := t\<rparr>) (localVideoRef s)\<rparr>"
| "handle YTScriptLoaded s =
     (case onYouTubeIframeAPIReady s of
        None \<Rightarrow> s\<lparr>window_YT := True\<rparr>
      | Some (videoId, sc) \<Rightarrow>
          createYouTubePlayer sc videoId (s\<lparr>window_YT := True, onYouTubeIframeAPIReady := None\<rparr>))"
| "handle YTReady s = onReady s"
| "handle (YTStateChange data) s =
     (case playerRef s of
        None \<Rightarrow> s
      | Some p \<Rightarrow> onStateChange (handlers p) data (s\<lparr>playerRef := Some (p\<lparr>yt_state := data\<rparr>)\<rparr>))"
| "handle (YTTime t) s =
     s\<lparr>playerRef := map_option (\<lambda>p. p\<lparr>yt_position := t\<rparr>) (playerRef s)\<rparr>"
| "handle (EmbedTime t) s = s\<lparr>embed_position := t\<rparr>"
| "handle (SessionStorageThrows b) s =
     s\<lparr>sessionStorage := (sessionStorage s)\<lparr>setItem_throws := b\<rparr>\<rparr>"
| "handle BeforeUnload s = (if beforeunload_listener s then handleBeforeUnload s else s)"
| "handle Unmount s = unmount s"

text \<open>One step: a mounted component handles the event and renders. After teardown its
  elements have left the document and send it no events; only time passes.\<close>

definition step :: "event \<Rightarrow> component \<Rightarrow> component" where
  "step e s =
     (if mounted s then
        (case e of Unmount \<Rightarrow> unmount s | _ \<Rightarrow> commit (handle e s))
      else (case e of Time t \<Rightarrow> time_step t s | _ \<Rightarrow> s))"

fun run :: "event list \<Rightarrow> component \<Rightarrow> component" where
  "run [] s = s"
| "run (e # es) s = run es (step e s)"

section \<open>Invariants and example inputs\<close>

text \<open>The unlock polls and the progress savers among the timer callbacks.\<close>

fun is_poll :: "callback \<Rightarrow> bool" where
  "is_poll (VimeoPoll sc t) = True"
| "is_poll (DrivePoll sc t) = True"
| "is_poll (LocalPoll sc) = True"
| "is_poll (YouTubePoll sc) = True"
| "is_poll cb = False"

fun is_save :: "callback \<Rightarrow> bool" where
  "is_save SaveLocal = True"
| "is_save SaveYouTube = True"
| "is_save cb = False"

text \<open>
  Every active timer has a positive handle that was already handed out, every active
  unlock poll is the one held in \<open>progressIntervalRef\<close>, every active progress saver is
  the one held in \<open>saveProgressIntervalRef\<close>, and the handle in
  \<open>hudOverlayTimeoutRef\<close> is positive.
\<close>

definition timers_tracked :: "component \<Rightarrow> bool" where
  "timers_tracked s =
     (0 < next_handle s \<and>
      (case hudOverlayTimeoutRef s of None \<Rightarrow> True | Some h \<Rightarrow> 0 < h) \<and>
      list_all (\<lambda>(h, cb). 0 < h \<and> h < next_handle s \<and>
                  (is_poll cb \<longrightarrow> progressIntervalRef s = Some h) \<and>
                  (is_save cb \<longrightarrow> saveProgressIntervalRef s = Some h)) (timers s))"


text \<open>A storage that works and is empty, one in which every operation throws, and two
  configurations an administrator may set.\<close>

definition fresh_storage :: storage where
  "fresh_storage = \<lparr>items = Map.empty, getItem_throws = False, setItem_throws = False,
                     removeItem_throws = False, writes = 0\<rparr>"

definition broken_storage :: storage where
  "broken_storage = \<lparr>items = Map.empty, getItem_throws = True, setItem_throws = True,
                      removeItem_throws = True, writes = 0\<rparr>"

definition local_config :: VideoConfig where
  "local_config = \<lparr>config_id = 1, video_url = js ''/videos/aula.mp4'', video_type = js ''local'',
                    video_path = Some (js ''/videos/aula.mp4''), button_delay_seconds = 5\<rparr>"

definition youtube_config :: VideoConfig where
  "youtube_config = \<lparr>config_id = 2, video_url = js ''https://www.youtube.com/watch?v=dQw4w9WgXcQ'',
                      video_type = js ''youtube'', video_path = None, button_delay_seconds = 5\<rparr>"

text \<open>
  Three sessions. In the first the default configuration is loaded and the visitor has
  clicked play. In the second a local video plays, is at second 9 and has been saved
  once. In the third a YouTube video plays and is at second 9.
\<close>

definition vimeo_session :: component where
  "vimeo_session =
     run [FetchSettled (Reply None), ClickPlay] (mount False fresh_storage 0 False)"

definition local_session :: component where
  "local_session =
     run [FetchSettled (Reply (Some local_config)), ClickPlay, VideoPlay, VideoTime 9,
          Time (TimerFires 3)]
       (mount False fresh_storage 0 False)"

definition youtube_session :: component where
  "youtube_session =
     run [FetchSettled (Reply (Some youtube_config)), ClickPlay, YTScriptLoaded, YTReady,
          YTStateChange PLAYING, YTTime 9]
       (mount False fresh_storage 0 False)"

text \<open>The entry \<open>saveProgress\<close> writes for \<open>time\<close> seconds at timestamp \<open>ts\<close>.\<close>

definition progress_entry :: "real \<Rightarrow> json \<Rightarrow> stored_text" where
  "progress_entry t ts = Serialized (JObj [(js ''time'', JNum t), (js ''timestamp'', ts)])"

section \<open>Evaluation\<close>

lemmas regex_defs = js_def cu_def getYouTubeVideoId_def youtube_match_def youtube_alternatives_def
  line_terminator_def is_word_def is_alpha_def is_digit_def getVimeoVideoId_def
  getGoogleDriveFileId_def capture_def

lemmas store_defs = getSavedProgress_def getSavedProgress_try_def saveProgress_def clearProgress_def
  getItem_def setItem_def removeItem_def JSON_stringify_def progress_key_def STORAGE_KEY_def
  stored_def do_saveProgress_def do_clearProgress_def fresh_storage_def broken_storage_def
  progress_entry_def

lemmas component_defs = step_def mount_def loadVideoConfig_def loaded_config_def default_config_def
  identity_effect_def DEFAULT_VIDEO_URL_def DEFAULT_VIDEO_TYPE_def DEFAULT_BUTTON_DELAY_def
  commit_def video_rendered_def handleManualPlay_def scope_of_def startVimeoManually_def
  vimeo_iframe_def arm_hud_timeout_def add_timer_def trackVimeoProgress_def
  trackGoogleDriveProgress_def trackLocalVideoProgress_def trackVideoProgress_def
  set_progress_interval_def set_save_interval_def startSavingLocalProgress_def
  startSavingProgress_def clear_if_set_def clearTimer_def enable_button_def elapsedSeconds_def
  setupLocalVideo_def setupGoogleDriveVideo_def loadYouTubePlayer_def createYouTubePlayer_def
  handleLocalVideoPlay_def handleLocalVideoEnded_def handleLocalVideoPause_def onReady_def
  onStateChange_def play_def seek_def playVideo_def seekTo_def unmount_def play_resolved_def
  handleBeforeUnload_def authorize_sound_def setItem_def local_config_def youtube_config_def
  Let_def

lemmas number_defs = StringToNumber_def trim_def is_space_def str_decimal_def
  unsigned_decimal_def signed_integer_def scale_def digits_value_def digit_value_def
  radix_literal_def is_digit_def cu_def js_def Let_def

section \<open>Strings\<close>

lemma unat_cu: "unat (cu c) = of_char c"
proof -
  have "(of_char c :: nat) < 256" by simp
  then have "(of_char c :: nat) < 65536" by linarith
  then have "(of_char c :: nat) < 2 ^ LENGTH(16)" by simp
  then show ?thesis unfolding cu_def by (rule of_nat_inverse[OF refl])
qed

lemma cu_eq [simp]: "cu a = cu b \<longleftrightarrow> a = b"
proof
  assume "cu a = cu b"
  then have "unat (cu a) = unat (cu b)" by simp
  then show "a = b" by (simp add: unat_cu)
qed simp

lemma js_eq [simp]: "js a = js b \<longleftrightarrow> a = b"
  by (simp add: js_def inj_map_eq_map inj_def)

lemma js_empty [simp]: "js s = [] \<longleftrightarrow> s = []"
  by (simp add: js_def)

text \<open>\<open>ToNumber\<close> on the values a saved position can have.\<close>

lemma ToNumber_examples:
  "ToNumber (JStr (js ''30'')) = Finite 30"
  "ToNumber (JStr (js '' 30.5 '')) = Finite 30.5"
  "ToNumber (JStr (js ''abc'')) = NaN"
  "ToNumber (JStr (js '''')) = Finite 0"
  "ToNumber (JStr (js ''Infinity'')) = PosInfinity"
  "ToNumber (JBool True) = Finite 1"
  "ToNumber (JArr [JStr (js ''7'')]) = Finite 7"
  "ToNumber (JObj []) = NaN"
  by (simp_all add: number_defs)

section \<open>The Progress Store\<close>

lemma getSavedProgress_total: "\<exists>v. getSavedProgress ls videoId = Inr v"
  by (simp add: getSavedProgress_def split: sum.split option.split)

lemma saveProgress_total: "\<exists>ls'. saveProgress ls videoId t now = Inr ls'"
  by (simp add: saveProgress_def split: sum.split)

lemma clearProgress_total: "\<exists>ls'. clearProgress ls videoId = Inr ls'"
  by (simp add: clearProgress_def split: sum.split)

lemma store_never_Inl [simp]:
  "getSavedProgress ls videoId \<noteq> Inl e"
  "saveProgress ls videoId t now \<noteq> Inl e"
  "clearProgress ls videoId \<noteq> Inl e"
  using getSavedProgress_total[of ls videoId] saveProgress_total[of ls videoId t now]
    clearProgress_total[of ls videoId]
  by auto





lemma saveProgress_throwing: "setItem_throws ls \<Longrightarrow> saveProgress ls videoId t now = Inr ls"
  by (simp add: saveProgress_def setItem_def)

lemma saveProgress_stores:
  "\<not> setItem_throws ls \<Longrightarrow>
     saveProgress ls videoId t now =
       Inr (ls\<lparr>items := (items ls)(progress_key videoId \<mapsto> progress_entry t (JNum (real_of_int now))),
              writes := Suc (writes ls)\<rparr>)"
  by (simp add: saveProgress_def setItem_def JSON_stringify_def progress_entry_def)

lemma getSavedProgress_entry:
  "\<not> getItem_throws ls \<Longrightarrow> items ls (progress_key videoId) = Some (progress_entry t ts)
     \<Longrightarrow> getSavedProgress ls videoId = Inr (JNum t)"
  by (simp add: getSavedProgress_def getSavedProgress_try_def getItem_def progress_entry_def)

lemma progress_key_inj: "progress_key a = progress_key b \<longleftrightarrow> a = b"
  by (simp add: progress_key_def)

lemma save_then_get:
  "\<not> setItem_throws ls \<Longrightarrow> \<not> getItem_throws ls \<Longrightarrow>
     \<exists>ls'. saveProgress ls videoId v now = Inr ls' \<and> getSavedProgress ls' videoId = Inr (JNum v)"
  by (simp add: saveProgress_stores getSavedProgress_entry)

lemma save_other_identity:
  "a \<noteq> b \<Longrightarrow>
     \<exists>ls'. saveProgress ls a v now = Inr ls' \<and> getSavedProgress ls' b = getSavedProgress ls b"
  by (cases "setItem_throws ls")
     (simp_all add: saveProgress_stores saveProgress_throwing getSavedProgress_def
        getSavedProgress_try_def getItem_def progress_key_inj)

lemma clear_then_get:
  "\<not> removeItem_throws ls \<Longrightarrow>
     \<exists>ls'. clearProgress ls a = Inr ls' \<and> getSavedProgress ls' a = Inr (JNum 0)"
  by (simp add: clearProgress_def removeItem_def getSavedProgress_def getSavedProgress_try_def
        getItem_def)


subsection \<open>No exception escapes a caller of the Progress Store\<close>

lemma uncaught_prims [simp]:
  "uncaught (add_timer cb s) = uncaught s"
  "uncaught (clearTimer h s) = uncaught s"
  "uncaught (clear_if_set r s) = uncaught s"
  "uncaught (arm_hud_timeout s) = uncaught s"
  "uncaught (set_progress_interval cb s) = uncaught s"
  "uncaught (set_save_interval cb s) = uncaught s"
  "uncaught (enable_button s) = uncaught s"
  by (simp_all add: add_timer_def clearTimer_def clear_if_set_def arm_hud_timeout_def
        set_progress_interval_def set_save_interval_def enable_button_def Let_def
      split: option.split)

lemma uncaught_store [simp]:
  "uncaught (do_saveProgress i t s) = uncaught s"
  "uncaught (do_clearProgress i s) = uncaught s"
  by (simp_all add: do_saveProgress_def do_clearProgress_def stored_def split: sum.split)

lemma uncaught_tracking [simp]:
  "uncaught (trackVimeoProgress sc s) = uncaught s"
  "uncaught (trackGoogleDriveProgress sc s) = uncaught s"
  "uncaught (trackLocalVideoProgress sc s) = uncaught s"
  "uncaught (trackVideoProgress sc s) = uncaught s"
  "uncaught (startSavingLocalProgress s) = uncaught s"
  "uncaught (startSavingProgress s) = uncaught s"
  by (simp_all add: trackVimeoProgress_def trackGoogleDriveProgress_def
        trackLocalVideoProgress_def trackVideoProgress_def startSavingLocalProgress_def
        startSavingProgress_def)

lemma uncaught_run_callback [simp]: "uncaught (run_callback cb s) = uncaught s"
  by (cases cb) (simp_all split: option.split)

lemma uncaught_createYouTubePlayer [simp]: "uncaught (createYouTubePlayer sc v s) = uncaught s"
  by (simp add: createYouTubePlayer_def split: sum.split)

lemma uncaught_store_callers [simp]:
  "uncaught (handleLocalVideoEnded s) = uncaught s"
  "uncaught (handleLocalVideoPause s) = uncaught s"
  "uncaught (handleBeforeUnload s) = uncaught s"
  "uncaught (onStateChange sc ENDED s) = uncaught s"
  "uncaught (onStateChange sc PAUSED s) = uncaught s"
  by (simp_all add: handleLocalVideoEnded_def handleLocalVideoPause_def handleBeforeUnload_def
        onStateChange_def Let_def split: option.split)

text \<open>The write to \<open>sessionStorage\<close> is outside the Progress Store and is not guarded:
  when it throws, the exception escapes the click handler and no unlock poll is started.\<close>

lemma session_storage_error_escapes:
  "uncaught (run [SessionStorageThrows True, FetchSettled (Reply None), ClickPlay]
               (mount False fresh_storage 0 False)) = Some QuotaExceededError \<and>
   timers (run [SessionStorageThrows True, FetchSettled (Reply None), ClickPlay]
             (mount False fresh_storage 0 False)) = []"
  by (simp add: component_defs store_defs regex_defs)





text \<open>
  C7. When the storage accepts the write and the read, \<open>getSavedProgress id\<close> after
  \<open>saveProgress id v\<close> returns \<open>v\<close>; when the storage accepts the removal,
  \<open>getSavedProgress id\<close> after \<open>clearProgress id\<close> returns 0; for distinct
  identities, \<open>saveProgress idA v\<close> leaves \<open>getSavedProgress idB\<close> as it was,
  whatever the storage does. Each record has its own key \<open>video_progress_<identity>\<close>,
  and distinct identities have distinct keys.
\<close>

theorem progress_round_trip_and_namespacing:
  "(\<not> setItem_throws ls \<and> \<not> getItem_throws ls \<longrightarrow>
      (\<exists>ls'. saveProgress ls idA v now = Inr ls' \<and> getSavedProgress ls' idA = Inr (JNum v))) \<and>
   (\<not> removeItem_throws ls \<longrightarrow>
      (\<exists>ls'. clearProgress ls idA = Inr ls' \<and> getSavedProgress ls' idA = Inr (JNum 0))) \<and>
   (idA \<noteq> idB \<longrightarrow>
      (\<exists>ls'. saveProgress ls idA v now = Inr ls' \<and>
             getSavedProgress ls' idB = getSavedProgress ls idB)) \<and>
   progress_key idA = js ''video_progress_'' @ idA \<and>
   (progress_key idA = progress_key idB \<longleftrightarrow> idA = idB)"
  using save_then_get[of ls idA v now] clear_then_get[of ls idA]
    save_other_identity[of idA idB ls v now] progress_key_inj[of idA idB]
  by (simp add: progress_key_def STORAGE_KEY_def js_def)

theorem progress_round_trip_and_namespacing_witness:
  "(\<exists>ls'. saveProgress fresh_storage (js ''1142286537'') 42 1000 = Inr ls' \<and>
          getSavedProgress ls' (js ''1142286537'') = Inr (JNum 42)) \<and>
   (\<exists>ls'. clearProgress fresh_storage (js ''1142286537'') = Inr ls' \<and>
          getSavedProgress ls' (js ''1142286537'') = Inr (JNum 0)) \<and>
   (\<exists>ls'. saveProgress fresh_storage (js ''1142286537'') 42 1000 = Inr ls' \<and>
          getSavedProgress ls' (js ''dQw4w9WgXcQ'') = getSavedProgress fresh_storage (js ''dQw4w9WgXcQ''))"
  using progress_round_trip_and_namespacing[of fresh_storage "js ''1142286537''" 42 1000
      "js ''dQw4w9WgXcQ''"]
  by (simp add: fresh_storage_def js_def cu_def)

subsection \<open>Age of a saved position\<close>

lemma resume_start:
  "getSavedProgress (localStorage s) videoId = Inr (JNum v) \<Longrightarrow>
     map_option start (playerRef (createYouTubePlayer sc videoId s)) = Some (Some \<lfloor>v\<rfloor>)"
  by (simp add: createYouTubePlayer_def)

lemma getSavedProgress_any_timestamp:
  "\<not> getItem_throws ls \<Longrightarrow>
     getSavedProgress (ls\<lparr>items := (items ls)(progress_key videoId \<mapsto> progress_entry v ts)\<rparr>) videoId
       = Inr (JNum v)"
  by (simp add: getSavedProgress_entry)

text \<open>
  C10. \<open>saveProgress\<close> stores the timestamp \<open>Date.now()\<close> next to the seconds on
  every write. \<open>getSavedProgress\<close> returns the seconds whatever the timestamp of the
  entry is, and a player created at any later time starts from them: saved progress
  never expires.
\<close>

theorem saved_progress_never_expires:
  "\<not> setItem_throws ls \<and> \<not> getItem_throws ls \<longrightarrow>
     (\<exists>ls'. saveProgress ls videoId v now = Inr ls' \<and>
        items ls' (progress_key videoId) = Some (progress_entry v (JNum (real_of_int now))) \<and>
        (\<forall>ts. getSavedProgress
                (ls'\<lparr>items := (items ls')(progress_key videoId \<mapsto> progress_entry v ts)\<rparr>) videoId
              = Inr (JNum v)) \<and>
        (\<forall>later sc s.
           map_option start
             (playerRef (createYouTubePlayer sc videoId (s\<lparr>localStorage := ls', clock := later\<rparr>)))
           = Some (Some \<lfloor>v\<rfloor>)))"
proof (intro impI)
  assume a: "\<not> setItem_throws ls \<and> \<not> getItem_throws ls"
  define ls' where "ls' = ls\<lparr>items := (items ls)(progress_key videoId \<mapsto>
      progress_entry v (JNum (real_of_int now))), writes := Suc (writes ls)\<rparr>"
  have s: "saveProgress ls videoId v now = Inr ls'"
    using a by (simp add: saveProgress_stores ls'_def)
  have g: "\<not> getItem_throws ls'" using a by (simp add: ls'_def)
  have e: "items ls' (progress_key videoId) = Some (progress_entry v (JNum (real_of_int now)))"
    by (simp add: ls'_def)
  have t: "\<forall>ts. getSavedProgress
                (ls'\<lparr>items := (items ls')(progress_key videoId \<mapsto> progress_entry v ts)\<rparr>) videoId
              = Inr (JNum v)"
    using g by (simp add: getSavedProgress_any_timestamp)
  have "getSavedProgress ls' videoId = Inr (JNum v)"
    using g e by (rule getSavedProgress_entry)
  then have r: "\<forall>later sc s. map_option start
             (playerRef (createYouTubePlayer sc videoId (s\<lparr>localStorage := ls', clock := later\<rparr>)))
           = Some (Some \<lfloor>v\<rfloor>)"
    by (simp add: resume_start)
  from s e t r show "\<exists>ls'. saveProgress ls videoId v now = Inr ls' \<and>
        items ls' (progress_key videoId) = Some (progress_entry v (JNum (real_of_int now))) \<and>
        (\<forall>ts. getSavedProgress
                (ls'\<lparr>items := (items ls')(progress_key videoId \<mapsto> progress_entry v ts)\<rparr>) videoId
              = Inr (JNum v)) \<and>
        (\<forall>later sc s.
           map_option start
             (playerRef (createYouTubePlayer sc videoId (s\<lparr>localStorage := ls', clock := later\<rparr>)))
           = Some (Some \<lfloor>v\<rfloor>))"
    by blast
qed

theorem saved_progress_never_expires_witness:
  "\<exists>ls'. saveProgress fresh_storage (js ''dQw4w9WgXcQ'') 42.5 1000 = Inr ls' \<and>
     items ls' (progress_key (js ''dQw4w9WgXcQ'')) = Some (progress_entry 42.5 (JNum 1000)) \<and>
     getSavedProgress
       (ls'\<lparr>items := (items ls')(progress_key (js ''dQw4w9WgXcQ'') \<mapsto> progress_entry 42.5 (JNum 0))\<rparr>)
       (js ''dQw4w9WgXcQ'') = Inr (JNum 42.5) \<and>
     map_option start
       (playerRef (createYouTubePlayer (scope_of (mount False ls' 0 True)) (js ''dQw4w9WgXcQ'')
          ((mount False ls' 0 True)\<lparr>localStorage := ls', clock := 1000 + 10 * 365 * 86400000\<rparr>)))
       = Some (Some 42)"
proof -
  have h: "\<not> setItem_throws fresh_storage \<and> \<not> getItem_throws fresh_storage"
    by (simp add: fresh_storage_def)
  have f: "\<lfloor>42.5::real\<rfloor> = 42" by linarith
  from saved_progress_never_expires[of fresh_storage "js ''dQw4w9WgXcQ''" "42.5" 1000] h
  obtain ls' where "saveProgress fresh_storage (js ''dQw4w9WgXcQ'') 42.5 1000 = Inr ls'"
    and "items ls' (progress_key (js ''dQw4w9WgXcQ'')) = Some (progress_entry 42.5 (JNum 1000))"
    and "\<forall>ts. getSavedProgress
                (ls'\<lparr>items := (items ls')(progress_key (js ''dQw4w9WgXcQ'') \<mapsto> progress_entry 42.5 ts)\<rparr>)
                (js ''dQw4w9WgXcQ'') = Inr (JNum 42.5)"
    and "\<forall>later sc s. map_option start
             (playerRef (createYouTubePlayer sc (js ''dQw4w9WgXcQ'') (s\<lparr>localStorage := ls', clock := later\<rparr>)))
           = Some (Some \<lfloor>42.5::real\<rfloor>)"
    by auto
  with f show ?thesis by auto
qed

section \<open>The YouTube identity\<close>

lemma getYouTubeVideoId_length: "getYouTubeVideoId url = Some vid \<Longrightarrow> length vid = 11"
  by (simp add: getYouTubeVideoId_def split: option.splits if_splits)

text \<open>
  C9. For every URL, \<open>getYouTubeVideoId\<close> returns \<open>null\<close> or a string of exactly
  11 code units; so the playback identity that the configuration effect derives for the
  YouTube backend, when it sets one, has length 11.
\<close>

theorem youtube_identity_has_length_11:
  "(getYouTubeVideoId url = None \<or>
     (\<exists>vid. getYouTubeVideoId url = Some vid \<and> length vid = 11)) \<and>
   (video_type c \<noteq> js ''local'' \<and> video_type c \<noteq> js ''google_drive'' \<and>
    video_type c \<noteq> js ''vimeo'' \<longrightarrow>
      currentVideoIdRef (identity_effect c s) = currentVideoIdRef s \<or>
      length (currentVideoIdRef (identity_effect c s)) = 11)"
  using getYouTubeVideoId_length[of url] getYouTubeVideoId_length[of "video_url c"]
  by (cases "getYouTubeVideoId url")
     (auto simp add: identity_effect_def Let_def split: option.split)

theorem youtube_identity_has_length_11_witness:
  "getYouTubeVideoId (js ''https://www.youtube.com/watch?v=dQw4w9WgXcQ'') = Some (js ''dQw4w9WgXcQ'') \<and>
   length (js ''dQw4w9WgXcQ'') = 11 \<and>
   getYouTubeVideoId (js ''https://youtu.be/short'') = None \<and>
   length (currentVideoIdRef (identity_effect youtube_config (mount False fresh_storage 0 False))) = 11"
  using youtube_identity_has_length_11[of "js ''https://www.youtube.com/watch?v=dQw4w9WgXcQ''"
      youtube_config "mount False fresh_storage 0 False"]
  by (simp add: regex_defs identity_effect_def youtube_config_def mount_def Let_def)

section \<open>Configuration fallback\<close>

lemma default_vimeo_id: "getVimeoVideoId DEFAULT_VIDEO_URL = Some (js ''1142286537'')"
  by (simp add: DEFAULT_VIDEO_URL_def regex_defs)

lemma mount_fields [simp]:
  "videoConfig (mount given ls now yt) = None"
  "buttonEnabled (mount given ls now yt) = False"
  "showHudOverlay (mount given ls now yt) = True"
  "showPlayOverlay (mount given ls now yt) = True"
  "playerRef (mount given ls now yt) = None"
  "localVideoRef (mount given ls now yt) = None"
  "progressIntervalRef (mount given ls now yt) = None"
  "saveProgressIntervalRef (mount given ls now yt) = None"
  "trackingStartedRef (mount given ls now yt) = False"
  "hudOverlayTimeoutRef (mount given ls now yt) = None"
  "currentVideoIdRef (mount given ls now yt) = []"
  "videoConfigRef (mount given ls now yt) = None"
  "onPlayStart (mount given ls now yt) = given"
  "mounted (mount given ls now yt) = True"
  "fetch_pending (mount given ls now yt) = True"
  "beforeunload_listener (mount given ls now yt) = True"
  "localStorage (mount given ls now yt) = ls"
  "sessionStorage (mount given ls now yt) =
     \<lparr>items = Map.empty, getItem_throws = False, setItem_throws = False,
      removeItem_throws = False, writes = 0\<rparr>"
  "timers (mount given ls now yt) = []"
  "next_handle (mount given ls now yt) = 1"
  "clock (mount given ls now yt) = now"
  "embed_position (mount given ls now yt) = 0"
  "posted (mount given ls now yt) = []"
  "window_YT (mount given ls now yt) = yt"
  "onYouTubeIframeAPIReady (mount given ls now yt) = None"
  "playPromise (mount given ls now yt) = None"
  "unlocks (mount given ls now yt) = 0"
  "playStarts (mount given ls now yt) = 0"
  "uncaught (mount given ls now yt) = None"
  by (simp_all add: mount_def)

lemma after_fetch:
  "loaded_config r = default_config \<Longrightarrow>
     step (FetchSettled r) (mount given ls now yt) =
       (mount given ls now yt)\<lparr>videoConfig := Some default_config, fetch_pending := False,
          videoConfigRef := Some default_config, currentVideoIdRef := js ''1142286537''\<rparr>"
  by (simp add: step_def loadVideoConfig_def identity_effect_def default_vimeo_id
        commit_def video_rendered_def default_config_def DEFAULT_VIDEO_TYPE_def Let_def)

lemma after_click:
  fixes given ls now yt
  defines "s1 \<equiv> (mount given ls now yt)\<lparr>videoConfig := Some default_config, fetch_pending := False,
          videoConfigRef := Some default_config, currentVideoIdRef := js ''1142286537''\<rparr>"
  shows "map_of (timers (step ClickPlay s1)) 2 =
           Some (VimeoPoll \<lparr>seen_videoConfig = Some default_config, seen_buttonEnabled = False\<rparr> now)"
    and "clock (step ClickPlay s1) = now"
    and "unlocks (step ClickPlay s1) = 0"
    and "mounted (step ClickPlay s1)"
  by (simp_all add: s1_def step_def handleManualPlay_def scope_of_def
        startVimeoManually_def authorize_sound_def setItem_def
        vimeo_iframe_def arm_hud_timeout_def add_timer_def
        trackVimeoProgress_def set_progress_interval_def clear_if_set_def commit_def
        video_rendered_def default_config_def DEFAULT_VIDEO_TYPE_def Let_def)
lemma commit_fields [simp]:
  "timers (commit s) = timers s" "clock (commit s) = clock s" "unlocks (commit s) = unlocks s"
  "mounted (commit s) = mounted s" "localStorage (commit s) = localStorage s"
  "playerRef (commit s) = playerRef s" "embed_position (commit s) = embed_position s"
  by (simp_all add: commit_def split: option.split)

lemma step_time: "step (Time e) s = (if mounted s then commit (time_step e s) else time_step e s)"
  by (simp add: step_def)

lemma elapse_fields [simp]:
  "timers (step (Time (Elapse n)) s) = timers s"
  "clock (step (Time (Elapse n)) s) = clock s + int n"
  "unlocks (step (Time (Elapse n)) s) = unlocks s"
  "mounted (step (Time (Elapse n)) s) = mounted s"
  by (simp_all add: step_time)

lemma vimeo_poll_fires:
  "map_of (timers s) h = Some (VimeoPoll \<lparr>seen_videoConfig = Some c, seen_buttonEnabled = False\<rparr> t0) \<Longrightarrow>
     unlocks (step (Time (TimerFires h)) s) =
       (if real_of_int (clock s - t0) / 1000 \<ge> button_delay_seconds c then Suc (unlocks s) else unlocks s)"
  by (simp add: step_time enable_button_def elapsedSeconds_def)


lemma fallback_unlocks:
  assumes "loaded_config r = default_config"
  shows "unlocks (run [FetchSettled r, ClickPlay, Time (Elapse 180000), Time (TimerFires 2)]
                (mount given ls now yt)) = 1"
proof -
  define s1 where "s1 = (mount given ls now yt)\<lparr>videoConfig := Some default_config,
      fetch_pending := False, videoConfigRef := Some default_config,
      currentVideoIdRef := js ''1142286537''\<rparr>"
  define s2 where "s2 = step ClickPlay s1"
  have e1: "step (FetchSettled r) (mount given ls now yt) = s1"
    unfolding s1_def using assms by (rule after_fetch)
  have r: "run [FetchSettled r, ClickPlay, Time (Elapse 180000), Time (TimerFires 2)]
          (mount given ls now yt) = step (Time (TimerFires 2)) (step (Time (Elapse 180000)) s2)"
    by (simp only: run.simps e1 s2_def)
  have t: "map_of (timers s2) 2 =
           Some (VimeoPoll \<lparr>seen_videoConfig = Some default_config, seen_buttonEnabled = False\<rparr> now)"
    and c: "clock s2 = now" and u: "unlocks s2 = 0"
    unfolding s2_def s1_def by (rule after_click)+
  have "unlocks (step (Time (TimerFires 2)) (step (Time (Elapse 180000)) s2)) = 1"
    using t c u
    by (subst vimeo_poll_fires[where c = default_config and ?t0.0 = now])
       (simp_all add: default_config_def DEFAULT_BUTTON_DELAY_def)
  with r show ?thesis by (simp only:)
qed

text \<open>
  C5. When the request for the configuration fails (the fetch rejects, the body is not
  JSON, the body is \<open>null\<close>) or the reply carries no video, the component takes the
  default configuration: the default Vimeo URL, type \<open>vimeo\<close>, a threshold of 180
  seconds. The funnel is not blocked: after such a reply a click on the play overlay
  starts the tracking, and the poll that fires 180 seconds later unlocks the button.
\<close>

theorem config_failure_falls_back_to_default:
  "loaded_config Rejected = default_config \<and>
   loaded_config BadJson = default_config \<and>
   loaded_config NullBody = default_config \<and>
   loaded_config (Reply None) = default_config \<and>
   videoConfig (loadVideoConfig r s) = Some (loaded_config r) \<and>
   video_url default_config = js ''https://vimeo.com/1142286537'' \<and>
   video_type default_config = js ''vimeo'' \<and>
   button_delay_seconds default_config = 180 \<and>
   unlocks (run [FetchSettled Rejected, ClickPlay, Time (Elapse 180000), Time (TimerFires 2)]
              (mount given ls now yt)) = 1 \<and>
   unlocks (run [FetchSettled BadJson, ClickPlay, Time (Elapse 180000), Time (TimerFires 2)]
              (mount given ls now yt)) = 1 \<and>
   unlocks (run [FetchSettled NullBody, ClickPlay, Time (Elapse 180000), Time (TimerFires 2)]
              (mount given ls now yt)) = 1 \<and>
   unlocks (run [FetchSettled (Reply None), ClickPlay, Time (Elapse 180000), Time (TimerFires 2)]
              (mount given ls now yt)) = 1"
proof -
  have d: "loaded_config Rejected = default_config" "loaded_config BadJson = default_config"
    "loaded_config NullBody = default_config" "loaded_config (Reply None) = default_config"
    by (simp_all add: loaded_config_def)
  have v: "videoConfig (loadVideoConfig r s) = Some (loaded_config r)"
    by (simp add: loadVideoConfig_def identity_effect_def Let_def split: option.split)
  have c: "video_url default_config = js ''https://vimeo.com/1142286537''"
    "video_type default_config = js ''vimeo''" "button_delay_seconds default_config = 180"
    by (simp_all add: default_config_def DEFAULT_VIDEO_URL_def DEFAULT_VIDEO_TYPE_def
          DEFAULT_BUTTON_DELAY_def)
  show ?thesis
    using d v c fallback_unlocks[OF d(1)] fallback_unlocks[OF d(2)] fallback_unlocks[OF d(3)]
      fallback_unlocks[OF d(4)]
    by simp
qed

theorem config_failure_falls_back_to_default_witness:
  "videoConfig (loadVideoConfig Rejected (mount False fresh_storage 0 False)) = Some default_config \<and>
   unlocks (run [FetchSettled Rejected, ClickPlay, Time (Elapse 180000), Time (TimerFires 2)]
              (mount False fresh_storage 0 False)) = 1"
  using config_failure_falls_back_to_default[of Rejected "mount False fresh_storage 0 False"
      False fresh_storage 0 False]
  by simp

section \<open>The example sessions\<close>

lemma vimeo_session_fields:
  "timers vimeo_session =
     [(1, HideHud),
      (2, VimeoPoll \<lparr>seen_videoConfig = Some default_config, seen_buttonEnabled = False\<rparr> 0)]"
  "unlocks vimeo_session = 0"
  "writes (localStorage vimeo_session) = 0"
  "mounted vimeo_session"
  "clock vimeo_session = 0"
  "localVideoRef vimeo_session = None"
  by (simp_all add: vimeo_session_def component_defs regex_defs fresh_storage_def)

lemma local_session_fields:
  "localVideoRef local_session = Some \<lparr>currentTime = 9, paused = False, ended = False, muted = False\<rparr>"
  "currentVideoIdRef local_session = js ''/videos/aula.mp4''"
  "items (localStorage local_session) (progress_key (js ''/videos/aula.mp4'')) =
     Some (progress_entry 9 (JNum 0))"
  "\<not> removeItem_throws (localStorage local_session)"
  "\<not> setItem_throws (localStorage local_session)"
  "clock local_session = 0"
  by (simp_all add: local_session_def component_defs regex_defs store_defs)

lemma youtube_session_fields:
  "playerRef youtube_session =
     Some \<lparr>api_attached = True, yt_position = 9, yt_state = PLAYING, yt_muted = False,
           handlers = \<lparr>seen_videoConfig = Some youtube_config, seen_buttonEnabled = False\<rparr>,
           start = Some 0\<rparr>"
  "currentVideoIdRef youtube_session = js ''dQw4w9WgXcQ''"
  "\<not> removeItem_throws (localStorage youtube_session)"
  "\<not> setItem_throws (localStorage youtube_session)"
  "clock youtube_session = 0"
  by (simp_all add: youtube_session_def component_defs regex_defs store_defs)

section \<open>Unlocking\<close>

text \<open>
  C1. The claim is that the unlock callback \<open>onButtonEnable\<close> is invoked exactly once
  per session, on the first poll tick at which the observed time has reached the
  threshold. The code invokes it on every such tick. In the Vimeo session (threshold
  180 seconds) the ticks at 180.0 and 180.3 seconds both invoke it, although the first
  has set \<open>buttonEnabled\<close>. In the YouTube session (threshold 5 seconds) the ticks at
  positions 9 and 6 both invoke it, the tick at position 0 in between does not.
\<close>

theorem unlock_callback_repeats_after_threshold:
  "unlocks (run [Time (Elapse 180000), Time (TimerFires 2)] vimeo_session) = 1 \<and>
   buttonEnabled (run [Time (Elapse 180000), Time (TimerFires 2)] vimeo_session) \<and>
   unlocks (run [Time (Elapse 180000), Time (TimerFires 2), Time (Elapse 300), Time (TimerFires 2)]
              vimeo_session) = 2 \<and>
   unlocks (run [Time (TimerFires 2), YTTime 0, Time (TimerFires 2), YTTime 6, Time (TimerFires 2)]
              youtube_session) = 2"
  by (simp add: vimeo_session_def youtube_session_def component_defs regex_defs store_defs)

text \<open>
  C2, as stated, fails for the hosted Vimeo stream. With the Vimeo playhead at second 0
  the button unlocks once 180 seconds of wall-clock time have passed since the click;
  with the playhead at second 500 it stays locked one second after the click.
\<close>

theorem vimeo_unlock_follows_the_wall_clock:
  "unlocks (run [EmbedTime 0, Time (Elapse 180000), Time (TimerFires 2)] vimeo_session) = 1 \<and>
   embed_position (run [EmbedTime 0, Time (Elapse 180000), Time (TimerFires 2)] vimeo_session) = 0 \<and>
   unlocks (run [EmbedTime 500, Time (Elapse 1000), Time (TimerFires 2)] vimeo_session) = 0 \<and>
   embed_position (run [EmbedTime 500, Time (Elapse 1000), Time (TimerFires 2)] vimeo_session) = 500"
  by (simp add: vimeo_session_def component_defs regex_defs)

lemma tracking_arms:
  "\<not> trackingStartedRef s \<Longrightarrow> snd (last (timers (trackVimeoProgress sc s))) = VimeoPoll sc (clock s)"
  "\<not> trackingStartedRef s \<Longrightarrow> snd (last (timers (trackGoogleDriveProgress sc s))) = DrivePoll sc (clock s)"
  "\<not> trackingStartedRef s \<Longrightarrow> snd (last (timers (trackLocalVideoProgress sc s))) = LocalPoll sc"
  "\<not> trackingStartedRef s \<Longrightarrow> snd (last (timers (trackVideoProgress sc s))) = YouTubePoll sc"
  by (simp_all add: trackVimeoProgress_def trackGoogleDriveProgress_def trackLocalVideoProgress_def
        trackVideoProgress_def set_progress_interval_def add_timer_def clear_if_set_def
        clearTimer_def Let_def split: option.split)

text \<open>
  C2, amended. A poll whose render saw configuration \<open>c\<close> and a disabled button
  unlocks exactly when: for the local file, the element's \<open>currentTime\<close> has reached
  the threshold; for YouTube, the ready player's \<open>getCurrentTime()\<close> has reached it;
  for Vimeo and for Google Drive alike, the wall-clock time since tracking started,
  \<open>(Date.now() - startTime) / 1000\<close>, has reached it. Each tracking function arms the
  poll of its own backend, with \<open>startTime\<close> the time of the call.
\<close>

theorem unlock_time_source:
  "seen_videoConfig sc = Some c \<and> \<not> seen_buttonEnabled sc \<and> \<not> trackingStartedRef s' \<longrightarrow>
     (unlocks (run_callback (LocalPoll sc) s) = Suc (unlocks s) \<longleftrightarrow>
        (\<exists>v. localVideoRef s = Some v \<and> button_delay_seconds c \<le> currentTime v)) \<and>
     (unlocks (run_callback (YouTubePoll sc) s) = Suc (unlocks s) \<longleftrightarrow>
        (\<exists>p. playerRef s = Some p \<and> api_attached p \<and> button_delay_seconds c \<le> yt_position p)) \<and>
     (unlocks (run_callback (VimeoPoll sc startTime) s) = Suc (unlocks s) \<longleftrightarrow>
        button_delay_seconds c \<le> real_of_int (clock s - startTime) / 1000) \<and>
     (unlocks (run_callback (DrivePoll sc startTime) s) = Suc (unlocks s) \<longleftrightarrow>
        button_delay_seconds c \<le> real_of_int (clock s - startTime) / 1000) \<and>
     snd (last (timers (trackLocalVideoProgress sc s'))) = LocalPoll sc \<and>
     snd (last (timers (trackVideoProgress sc s'))) = YouTubePoll sc \<and>
     snd (last (timers (trackVimeoProgress sc s'))) = VimeoPoll sc (clock s') \<and>
     snd (last (timers (trackGoogleDriveProgress sc s'))) = DrivePoll sc (clock s')"
  by (auto simp add: tracking_arms enable_button_def elapsedSeconds_def split: option.split)

theorem unlock_time_source_witness:
  "unlocks (run_callback
              (VimeoPoll \<lparr>seen_videoConfig = Some default_config, seen_buttonEnabled = False\<rparr> 0)
              (time_step (Elapse 180000) vimeo_session)) = 1 \<and>
   unlocks (run_callback
              (LocalPoll \<lparr>seen_videoConfig = Some default_config, seen_buttonEnabled = False\<rparr>)
              (time_step (Elapse 180000) vimeo_session)) = 0 \<and>
   snd (last (timers (trackVimeoProgress
                        \<lparr>seen_videoConfig = Some default_config, seen_buttonEnabled = False\<rparr>
                        (mount False fresh_storage 0 False)))) =
     VimeoPoll \<lparr>seen_videoConfig = Some default_config, seen_buttonEnabled = False\<rparr> 0"
  using unlock_time_source[of
      "\<lparr>seen_videoConfig = Some default_config, seen_buttonEnabled = False\<rparr>" default_config
      "mount False fresh_storage 0 False" "time_step (Elapse 180000) vimeo_session" 0]
    vimeo_session_fields
  by (simp add: default_config_def DEFAULT_BUTTON_DELAY_def)

section \<open>End of media and pause\<close>

text \<open>
  C3. On the end of the media the handler clears the persisted progress of the current
  identity (the entry is gone when the storage accepts the removal), seeks to zero and
  plays: the local element ends at position 0, neither paused nor ended; the ready
  YouTube player ends at position 0 in state \<open>PLAYING\<close>.
\<close>

theorem end_of_media_clears_progress_and_replays:
  "(localVideoRef s = Some v \<longrightarrow>
      (\<exists>v'. localVideoRef (handle VideoEnded s) = Some v' \<and>
            currentTime v' = 0 \<and> \<not> paused v' \<and> \<not> ended v')) \<and>
   (localVideoRef s = Some v \<and> \<not> removeItem_throws (localStorage s) \<longrightarrow>
      items (localStorage (handle VideoEnded s)) (progress_key (currentVideoIdRef s)) = None \<and>
      getSavedProgress (localStorage (handle VideoEnded s)) (currentVideoIdRef s) = Inr (JNum 0)) \<and>
   (playerRef s = Some p \<and> api_attached p \<longrightarrow>
      (\<exists>p'. playerRef (handle (YTStateChange ENDED) s) = Some p' \<and>
            yt_position p' = 0 \<and> yt_state p' = PLAYING)) \<and>
   (playerRef s = Some p \<and> \<not> removeItem_throws (localStorage s) \<longrightarrow>
      items (localStorage (handle (YTStateChange ENDED) s)) (progress_key (currentVideoIdRef s)) = None \<and>
      getSavedProgress (localStorage (handle (YTStateChange ENDED) s)) (currentVideoIdRef s) = Inr (JNum 0))"
  by (simp add: handleLocalVideoEnded_def onStateChange_def do_clearProgress_def stored_def
        clearProgress_def removeItem_def play_def seek_def playVideo_def seekTo_def Let_def
        getSavedProgress_def getSavedProgress_try_def getItem_def)

theorem end_of_media_clears_progress_and_replays_witness:
  "map_option currentTime (localVideoRef (handle VideoEnded local_session)) = Some 0 \<and>
   map_option paused (localVideoRef (handle VideoEnded local_session)) = Some False \<and>
   map_option ended (localVideoRef (handle VideoEnded local_session)) = Some False \<and>
   items (localStorage local_session) (progress_key (js ''/videos/aula.mp4'')) =
     Some (progress_entry 9 (JNum 0)) \<and>
   items (localStorage (handle VideoEnded local_session)) (progress_key (js ''/videos/aula.mp4'')) =
     None \<and>
   map_option yt_state (playerRef (handle (YTStateChange ENDED) youtube_session)) = Some PLAYING \<and>
   map_option yt_position (playerRef (handle (YTStateChange ENDED) youtube_session)) = Some 0"
  using end_of_media_clears_progress_and_replays[of local_session
      "\<lparr>currentTime = 9, paused = False, ended = False, muted = False\<rparr>"]
    end_of_media_clears_progress_and_replays[of youtube_session _
      "\<lparr>api_attached = True, yt_position = 9, yt_state = PLAYING, yt_muted = False,
        handlers = \<lparr>seen_videoConfig = Some youtube_config, seen_buttonEnabled = False\<rparr>,
        start = Some 0\<rparr>"]
    local_session_fields youtube_session_fields
  by (auto simp del: handle.simps)

text \<open>
  C4, as stated, fails: in the player with the explicit play overlay a pause is followed
  by an automatic resume. After a pause event the local element of the local session is
  playing again, and the YouTube player of the YouTube session is in state
  \<open>PLAYING\<close> again.
\<close>

theorem pause_is_followed_by_resume:
  "map_option paused (localVideoRef (step VideoPause local_session)) = Some False \<and>
   map_option yt_state (playerRef (step (YTStateChange PAUSED) youtube_session)) = Some PLAYING"
  by (simp add: local_session_def youtube_session_def component_defs regex_defs store_defs)

lemma do_saveProgress_fields [simp]:
  "localVideoRef (do_saveProgress i t s) = localVideoRef s"
  "playerRef (do_saveProgress i t s) = playerRef s"
  by (simp_all add: do_saveProgress_def stored_def split: sum.split)

lemma do_saveProgress_storage:
  "\<not> setItem_throws (localStorage s) \<Longrightarrow>
     items (localStorage (do_saveProgress i t s)) (progress_key i) =
       Some (progress_entry t (JNum (real_of_int (clock s))))"
  by (simp add: do_saveProgress_def stored_def saveProgress_stores)

text \<open>
  C4, amended. In the player with the explicit play overlay, the pause handler of the
  local element resumes playback with \<open>play()\<close>, and the pause branch of the YouTube
  state handler resumes a ready player with \<open>playVideo()\<close>; before that each saves the
  current position under the current identity, when there is one and the storage
  accepts the write.
\<close>

theorem pause_handlers_save_and_resume:
  "(localVideoRef s = Some v \<longrightarrow>
      (\<exists>v'. localVideoRef (handle VideoPause s) = Some v' \<and> \<not> paused v')) \<and>
   (localVideoRef s = Some v \<and> currentVideoIdRef s \<noteq> [] \<and> \<not> setItem_throws (localStorage s) \<longrightarrow>
      items (localStorage (handle VideoPause s)) (progress_key (currentVideoIdRef s)) =
        Some (progress_entry (currentTime v) (JNum (real_of_int (clock s))))) \<and>
   (playerRef s = Some p \<and> api_attached p \<longrightarrow>
      (\<exists>p'. playerRef (handle (YTStateChange PAUSED) s) = Some p' \<and> yt_state p' = PLAYING)) \<and>
   (playerRef s = Some p \<and> api_attached p \<and> currentVideoIdRef s \<noteq> [] \<and>
    \<not> setItem_throws (localStorage s) \<longrightarrow>
      items (localStorage (handle (YTStateChange PAUSED) s)) (progress_key (currentVideoIdRef s)) =
        Some (progress_entry (yt_position p) (JNum (real_of_int (clock s)))))"
  by (simp add: handleLocalVideoPause_def onStateChange_def do_saveProgress_storage
        play_def playVideo_def Let_def)

theorem pause_handlers_save_and_resume_witness:
  "map_option paused (localVideoRef (handle VideoPause local_session)) = Some False \<and>
   items (localStorage (handle VideoPause local_session)) (progress_key (js ''/videos/aula.mp4'')) =
     Some (progress_entry 9 (JNum 0)) \<and>
   map_option yt_state (playerRef (handle (YTStateChange PAUSED) youtube_session)) = Some PLAYING \<and>
   items (localStorage (handle (YTStateChange PAUSED) youtube_session))
     (progress_key (js ''dQw4w9WgXcQ'')) = Some (progress_entry 9 (JNum 0))"
  using pause_handlers_save_and_resume[of local_session
      "\<lparr>currentTime = 9, paused = False, ended = False, muted = False\<rparr>"]
    pause_handlers_save_and_resume[of youtube_session _
      "\<lparr>api_attached = True, yt_position = 9, yt_state = PLAYING, yt_muted = False,
        handlers = \<lparr>seen_videoConfig = Some youtube_config, seen_buttonEnabled = False\<rparr>,
        start = Some 0\<rparr>"]
    local_session_fields youtube_session_fields
  by (auto simp del: handle.simps)

section \<open>Teardown\<close>

lemma tt_frame [simp]:
  "timers_tracked (s\<lparr>videoConfig := a1\<rparr>) = timers_tracked s"
  "timers_tracked (s\<lparr>buttonEnabled := a2\<rparr>) = timers_tracked s"
  "timers_tracked (s\<lparr>showHudOverlay := a3\<rparr>) = timers_tracked s"
  "timers_tracked (s\<lparr>showPlayOverlay := a4\<rparr>) = timers_tracked s"
  "timers_tracked (s\<lparr>playerRef := a5\<rparr>) = timers_tracked s"
  "timers_tracked (s\<lparr>localVideoRef := a6\<rparr>) = timers_tracked s"
  "timers_tracked (s\<lparr>trackingStartedRef := a7\<rparr>) = timers_tracked s"
  "timers_tracked (s\<lparr>currentVideoIdRef := a9\<rparr>) = timers_tracked s"
  "timers_tracked (s\<lparr>videoConfigRef := b1\<rparr>) = timers_tracked s"
  "timers_tracked (s\<lparr>mounted := b2\<rparr>) = timers_tracked s"
  "timers_tracked (s\<lparr>fetch_pending := b3\<rparr>) = timers_tracked s"
  "timers_tracked (s\<lparr>beforeunload_listener := b4\<rparr>) = timers_tracked s"
  "timers_tracked (s\<lparr>localStorage := b5\<rparr>) = timers_tracked s"
  "timers_tracked (s\<lparr>sessionStorage := b6\<rparr>) = timers_tracked s"
  "timers_tracked (s\<lparr>clock := b7\<rparr>) = timers_tracked s"
  "timers_tracked (s\<lparr>embed_position := b8\<rparr>) = timers_tracked s"
  "timers_tracked (s\<lparr>posted := b9\<rparr>) = timers_tracked s"
  "timers_tracked (s\<lparr>window_YT := c1\<rparr>) = timers_tracked s"
  "timers_tracked (s\<lparr>onYouTubeIframeAPIReady := c2\<rparr>) = timers_tracked s"
  "timers_tracked (s\<lparr>playPromise := c3\<rparr>) = timers_tracked s"
  "timers_tracked (s\<lparr>unlocks := c4\<rparr>) = timers_tracked s"
  "timers_tracked (s\<lparr>playStarts := c5\<rparr>) = timers_tracked s"
  "timers_tracked (s\<lparr>uncaught := c6\<rparr>) = timers_tracked s"
  by (simp_all add: timers_tracked_def)






lemma tt_stored [simp]: "timers_tracked (stored r s) = timers_tracked s"
  by (simp add: stored_def split: sum.split)

lemma tt_store_calls [simp]:
  "timers_tracked (do_saveProgress i t s) = timers_tracked s"
  "timers_tracked (do_clearProgress i s) = timers_tracked s"
  by (simp_all add: do_saveProgress_def do_clearProgress_def)

lemma tt_enable [simp]: "timers_tracked (enable_button s) = timers_tracked s"
  by (simp add: enable_button_def timers_tracked_def)
















lemma clear_if_set_fields [simp]:
  "timers (clear_if_set r s) = filter (\<lambda>(h, cb). r \<noteq> Some h \<or> h = 0) (timers s)"
  "progressIntervalRef (clear_if_set r s) = progressIntervalRef s"
  "saveProgressIntervalRef (clear_if_set r s) = saveProgressIntervalRef s"
  "hudOverlayTimeoutRef (clear_if_set r s) = hudOverlayTimeoutRef s"
  by (auto simp add: clear_if_set_def clearTimer_def split: option.split intro: filter_cong)







lemma clear_if_set_frame [simp]:
  "unlocks (clear_if_set r s) = unlocks s"
  "localStorage (clear_if_set r s) = localStorage s"
  by (simp_all add: clear_if_set_def clearTimer_def split: option.split)




end
